theory Spec2Isabelle
  imports Complex_Main
begin

section \<open>The C++ type double\<close>

text \<open>
  Thruster.cc computes on IEEE-754 doubles. The model keeps what the program's branches can
  observe of a double: a finite value, the sign of a zero, the two infinities and NaN.
  A finite value is a real number and arithmetic on finite values is exact: rounding,
  overflow and underflow are not modelled. \<open>Fin 0\<close> is +0.0 and \<open>NZero\<close> is -0.0;
  \<open>Fin x\<close> with \<open>x \<noteq> 0\<close> is the double of value \<open>x\<close>.
\<close>

datatype double = Fin real | NZero | PInf | NInf | NaN

fun isnan :: "double \<Rightarrow> bool" where
  "isnan NaN = True"
| "isnan _ = False"

fun isinf :: "double \<Rightarrow> bool" where
  "isinf PInf = True"
| "isinf NInf = True"
| "isinf _ = False"

fun iszero :: "double \<Rightarrow> bool" where
  "iszero (Fin x) = (x = 0)"
| "iszero NZero = True"
| "iszero _ = False"

text \<open>The sign bit (of a value that is not NaN).\<close>

fun signbit :: "double \<Rightarrow> bool" where
  "signbit (Fin x) = (x < 0)"
| "signbit NZero = True"
| "signbit NInf = True"
| "signbit _ = False"

text \<open>The real value of a finite double (both zeros have value 0).\<close>

fun rv :: "double \<Rightarrow> real" where
  "rv (Fin x) = x"
| "rv _ = 0"

definition szero :: "bool \<Rightarrow> double" where
  "szero neg = (if neg then NZero else Fin 0)"

definition sinf :: "bool \<Rightarrow> double" where
  "sinf neg = (if neg then NInf else PInf)"

text \<open>The finite double of an exact result \<open>x\<close>; \<open>neg\<close> is the sign a zero result gets.\<close>

definition mk :: "bool \<Rightarrow> real \<Rightarrow> double" where
  "mk neg x = (if x = 0 then szero neg else Fin x)"

text \<open>Unary minus, \<open>std::abs\<close> and \<open>sqrt\<close>.\<close>

fun dneg :: "double \<Rightarrow> double" where
  "dneg (Fin x) = mk True (- x)"
| "dneg NZero = Fin 0"
| "dneg PInf = NInf"
| "dneg NInf = PInf"
| "dneg NaN = NaN"

fun dabs :: "double \<Rightarrow> double" where
  "dabs (Fin x) = Fin \<bar>x\<bar>"
| "dabs NZero = Fin 0"
| "dabs PInf = PInf"
| "dabs NInf = PInf"
| "dabs NaN = NaN"

fun dsqrt :: "double \<Rightarrow> double" where
  "dsqrt (Fin x) = (if x < 0 then NaN else Fin (sqrt x))"
| "dsqrt NZero = NZero"
| "dsqrt PInf = PInf"
| "dsqrt NInf = NaN"
| "dsqrt NaN = NaN"

text \<open>
  The binary operations \<open>*\<close>, \<open>/\<close>, \<open>+\<close> and \<open>-\<close>: NaN propagates, \<open>0 * inf\<close>,
  \<open>inf / inf\<close>, \<open>0 / 0\<close> and \<open>inf - inf\<close> are NaN, a nonzero value divided by a zero is an
  infinity, and the sign of a product or quotient is the exclusive or of the signs.
\<close>

definition dmul :: "double \<Rightarrow> double \<Rightarrow> double" where
  "dmul a b =
     (if isnan a \<or> isnan b then NaN
      else if isinf a \<or> isinf b then
        (if iszero a \<or> iszero b then NaN else sinf (signbit a \<noteq> signbit b))
      else mk (signbit a \<noteq> signbit b) (rv a * rv b))"

definition ddiv :: "double \<Rightarrow> double \<Rightarrow> double" where
  "ddiv a b =
     (if isnan a \<or> isnan b then NaN
      else if isinf a then (if isinf b then NaN else sinf (signbit a \<noteq> signbit b))
      else if isinf b then szero (signbit a \<noteq> signbit b)
      else if iszero b then (if iszero a then NaN else sinf (signbit a \<noteq> signbit b))
      else mk (signbit a \<noteq> signbit b) (rv a / rv b))"

definition dadd :: "double \<Rightarrow> double \<Rightarrow> double" where
  "dadd a b =
     (if isnan a \<or> isnan b then NaN
      else if isinf a then (if isinf b \<and> a \<noteq> b then NaN else a)
      else if isinf b then b
      else mk (signbit a \<and> signbit b) (rv a + rv b))"

definition dsub :: "double \<Rightarrow> double \<Rightarrow> double" where
  "dsub a b = dadd a (dneg b)"

text \<open>
  \<open>pow(x, n)\<close> for an exponent that is a natural number: \<open>pow(x, 0)\<close> is 1 for every
  \<open>x\<close>, and an odd power keeps the sign of a zero or an infinity.
\<close>

definition dpow :: "double \<Rightarrow> nat \<Rightarrow> double" where
  "dpow x n =
     (if n = 0 then Fin 1
      else case x of
        Fin r \<Rightarrow> Fin (r ^ n)
      | NZero \<Rightarrow> (if odd n then NZero else Fin 0)
      | PInf \<Rightarrow> PInf
      | NInf \<Rightarrow> (if odd n then NInf else PInf)
      | NaN \<Rightarrow> NaN)"

text \<open>
  The comparisons \<open><\<close>, \<open>==\<close>, \<open><=\<close> and \<open>>\<close>: every comparison with NaN is
  false, and the two zeros are equal.
\<close>

fun dlt :: "double \<Rightarrow> double \<Rightarrow> bool" where
  "dlt NaN _ = False"
| "dlt _ NaN = False"
| "dlt PInf _ = False"
| "dlt _ NInf = False"
| "dlt NInf _ = True"
| "dlt _ PInf = True"
| "dlt a b = (rv a < rv b)"

fun deq :: "double \<Rightarrow> double \<Rightarrow> bool" where
  "deq NaN _ = False"
| "deq _ NaN = False"
| "deq PInf b = (b = PInf)"
| "deq NInf b = (b = NInf)"
| "deq _ PInf = False"
| "deq _ NInf = False"
| "deq a b = (rv a = rv b)"

definition dle :: "double \<Rightarrow> double \<Rightarrow> bool" where
  "dle a b = (dlt a b \<or> deq a b)"

definition dgt :: "double \<Rightarrow> double \<Rightarrow> bool" where
  "dgt a b = dlt b a"

definition dge :: "double \<Rightarrow> double \<Rightarrow> bool" where
  "dge a b = dle b a"

text \<open>\<open>std::numeric_limits<double>::epsilon()\<close>, which is \<open>2^-52\<close>.\<close>

definition epsilon :: double where
  "epsilon = Fin (1 / 2 ^ 52)"

text \<open>\<open>std::min(a, b)\<close> is \<open>(b < a) ? b : a\<close> and \<open>std::max(a, b)\<close> is \<open>(a < b) ? b : a\<close>.\<close>

definition dmin :: "double \<Rightarrow> double \<Rightarrow> double" where
  "dmin a b = (if dlt b a then b else a)"

definition dmax :: "double \<Rightarrow> double \<Rightarrow> double" where
  "dmax a b = (if dlt a b then b else a)"

section \<open>Helpers of the gz-math library\<close>

text \<open>
  Modelled from the spec: \<open>gz::math::fixnan\<close> and \<open>gz::math::clamp\<close> (gz/math/Helpers.hh
  of the gz-math library, not under src/). The spec has a command "sanitized (NaN replaced
  by 0) and clamped to [cmdMin, cmdMax]". The library documents \<open>fixnan\<close> as returning
  "0 if _v is NaN or is infinite, _v otherwise", and defines \<open>clamp(v, min, max)\<close> as
  \<open>std::max(std::min(v, max), min)\<close>.
\<close>

definition fixnan :: "double \<Rightarrow> double" where
  "fixnan v = (if isnan v \<or> isinf v then Fin 0 else v)"

definition clamp :: "double \<Rightarrow> double \<Rightarrow> double \<Rightarrow> double" where
  "clamp v lo hi = dmax (dmin v hi) lo"

text \<open>
  Modelled from the spec: \<open>gz::math::PID\<close> (gz-math library, not under src/), the
  controller behind "torque = PID.Update(error, dt)", with the "PID gains (p, i, d) and
  integrator bounds" and the command limits and offset that \<open>Configure\<close> hands to
  \<open>Init\<close>. The update law is the library's: no command for a zero step or an error that
  is not finite; otherwise the proportional term, the integral term clamped to
  \<open>[IMin, IMax]\<close> and the derivative term are subtracted from the offset and the command
  is clamped to \<open>[CmdMin, CmdMax]\<close> (each clamp only when its upper bound is not below
  its lower bound).
\<close>

record PID =
  pErrLast :: double
  pErr :: double
  iErr :: double
  dErr :: double
  PGain :: double
  IGain :: double
  DGain :: double
  IMax :: double
  IMin :: double
  cmd :: double
  CmdMax :: double
  CmdMin :: double
  CmdOffset :: double

definition PID_Init ::
  "double \<Rightarrow> double \<Rightarrow> double \<Rightarrow> double \<Rightarrow> double \<Rightarrow> double \<Rightarrow> double \<Rightarrow> double \<Rightarrow> PID"
where
  "PID_Init p i d imax imin cmdmax cmdmin cmdoffset =
     \<lparr> pErrLast = Fin 0, pErr = Fin 0, iErr = Fin 0, dErr = Fin 0,
       PGain = p, IGain = i, DGain = d, IMax = imax, IMin = imin,
       cmd = Fin 0, CmdMax = cmdmax, CmdMin = cmdmin, CmdOffset = cmdoffset \<rparr>"

text \<open>The default-constructed controller: \<open>PID(0, 0, 0, -1, 0, -1, 0, 0)\<close>.\<close>

definition PID_default :: PID where
  "PID_default = PID_Init (Fin 0) (Fin 0) (Fin 0) (Fin (- 1)) (Fin 0) (Fin (- 1)) (Fin 0) (Fin 0)"

definition PID_Update :: "PID \<Rightarrow> double \<Rightarrow> double \<Rightarrow> double \<times> PID" where
  "PID_Update c error dt =
     (if deq dt (Fin 0) \<or> isnan error \<or> isinf error then (Fin 0, c)
      else
        let c1 = c\<lparr>pErr := error\<rparr>;
            pTerm = dmul (PGain c1) (pErr c1);
            c2 = c1\<lparr>iErr := dadd (iErr c1) (dmul (dmul (IGain c1) dt) (pErr c1))\<rparr>;
            c3 = (if dge (IMax c2) (IMin c2)
                  then c2\<lparr>iErr := clamp (iErr c2) (IMin c2) (IMax c2)\<rparr> else c2);
            c4 = (if \<not> deq dt (Fin 0)
                  then c3\<lparr>dErr := ddiv (dsub (pErr c3) (pErrLast c3)) dt, pErrLast := pErr c3\<rparr>
                  else c3);
            dTerm = dmul (DGain c4) (dErr c4);
            c5 = c4\<lparr>cmd := dsub (dsub (dsub (CmdOffset c4) pTerm) (iErr c4)) dTerm\<rparr>;
            c6 = (if dge (CmdMax c5) (CmdMin c5)
                  then c5\<lparr>cmd := clamp (cmd c5) (CmdMin c5) (CmdMax c5)\<rparr> else c5)
        in (cmd c6, c6))"

text \<open>
  Modelled from the spec: \<open>gz::math::Vector3d\<close> (gz-math library, not under src/), as far
  as the control step uses it: the product with a scalar ("force vector = (spin axis
  expressed in world frame) x commandedThrust"), the dot product (the "angular rate
  projected onto the spin axis") and the length (the "observed linear speed").
\<close>

datatype Vector3d = Vector3d double double double

fun vec_scale :: "Vector3d \<Rightarrow> double \<Rightarrow> Vector3d" where
  "vec_scale (Vector3d x y z) k = Vector3d (dmul x k) (dmul y k) (dmul z k)"

fun Dot :: "Vector3d \<Rightarrow> Vector3d \<Rightarrow> double" where
  "Dot (Vector3d x y z) (Vector3d u v w) = dadd (dadd (dmul x u) (dmul y v)) (dmul z w)"

fun Length :: "Vector3d \<Rightarrow> double" where
  "Length (Vector3d x y z) = dsqrt (dadd (dadd (dpow x 2) (dpow y 2)) (dpow z 2))"

text \<open>A pose is a position and a rotation quaternion; the model only passes poses on.\<close>

datatype Quaterniond = Quaterniond double double double double

datatype Pose3d = Pose3d Vector3d Quaterniond

section \<open>The data of the system\<close>

type_synonym Entity = nat

definition kNullEntity :: Entity where
  "kNullEntity = 0"

datatype OperationMode = ForceCmd | AngVelCmd

text \<open>The two command callbacks a subscription can name.\<close>

datatype Callback = CbOnCmdThrust | CbOnCmdAngVel

text \<open>
  \<open>ThrusterPrivateData\<close>, field by field. The mutex is not modelled: each callback and
  the locked block of \<open>PreUpdate\<close> are single steps. Of the transport node the record keeps
  the subscriptions made, and of the publisher the topic it was advertised on
  (\<open>None\<close> before \<open>Advertise\<close>).
\<close>

record ThrusterPrivateData =
  opmode :: OperationMode
  thrust :: double
  propellerAngVel :: double
  enabled :: bool
  modelEntity :: Entity
  linkEntity :: Entity
  jointAxis :: Vector3d
  jointPose :: Pose3d
  jointEntity :: Entity
  subscriptions :: "(string \<times> Callback) list"
  pub :: "string option"
  propellerController :: PID
  velocityControl :: bool
  cmdMax :: double
  cmdMin :: double
  thrustCoefficient :: double
  thrustCoefficientSet :: bool
  wakeFraction :: double
  alpha1 :: double
  alpha2 :: double
  fluidDensity :: double
  propellerDiameter :: double
  linearVelocity :: double
  topic :: string

text \<open>
  The state after the constructor \<open>Thruster::Thruster\<close>: the default member initialisers.
  The members the class leaves uninitialised (the three entities) are parameters, and the
  two gz-math members are zero-initialised by their default constructors.
\<close>

definition Thruster_init :: "Entity \<Rightarrow> Entity \<Rightarrow> Entity \<Rightarrow> ThrusterPrivateData" where
  "Thruster_init m l j =
     \<lparr> opmode = ForceCmd, thrust = Fin 0, propellerAngVel = Fin 0, enabled = True,
       modelEntity = m, linkEntity = l,
       jointAxis = Vector3d (Fin 0) (Fin 0) (Fin 0),
       jointPose = Pose3d (Vector3d (Fin 0) (Fin 0) (Fin 0))
                     (Quaterniond (Fin 1) (Fin 0) (Fin 0) (Fin 0)),
       jointEntity = j, subscriptions = [], pub = None,
       propellerController = PID_default, velocityControl = False,
       cmdMax = Fin 1000, cmdMin = Fin (- 1000),
       thrustCoefficient = Fin 1, thrustCoefficientSet = False,
       wakeFraction = Fin (2 / 10), alpha1 = Fin 1, alpha2 = Fin 0,
       fluidDensity = Fin 1000, propellerDiameter = Fin (2 / 100),
       linearVelocity = Fin 0, topic = [] \<rparr>"

section \<open>The actuator model\<close>

text \<open>
  \<open>UpdateThrustCoefficient\<close>:
  \<open>thrustCoefficient = alpha1 + alpha2 * (((1 - wakeFraction) * linearVelocity) /
  (propellerAngVel * propellerDiameter))\<close>.
\<close>

definition UpdateThrustCoefficient :: "ThrusterPrivateData \<Rightarrow> ThrusterPrivateData" where
  "UpdateThrustCoefficient s =
     s\<lparr>thrustCoefficient :=
         dadd (alpha1 s)
           (dmul (alpha2 s)
              (ddiv (dmul (dsub (Fin 1) (wakeFraction s)) (linearVelocity s))
                    (dmul (propellerAngVel s) (propellerDiameter s))))\<rparr>"

text \<open>
  \<open>ThrustToAngularVec\<close> is a member function that may write \<open>thrustCoefficient\<close>, so it
  returns the state with its result. The unqualified \<open>abs\<close> and \<open>sqrt\<close> of the source are
  read as the overloads for double.
\<close>

definition ThrustToAngularVec ::
  "ThrusterPrivateData \<Rightarrow> double \<Rightarrow> double \<times> ThrusterPrivateData"
where
  "ThrustToAngularVec s t =
     (let s1 = (if \<not> thrustCoefficientSet s \<and> dgt (dabs (propellerAngVel s)) epsilon
                then UpdateThrustCoefficient s else s);
          propAngularVelocity =
            dsqrt (dabs (ddiv t
              (dmul (dmul (fluidDensity s1) (thrustCoefficient s1))
                    (dpow (propellerDiameter s1) 4))));
          propAngularVelocity' =
            dmul propAngularVelocity
              (if dgt (dmul t (thrustCoefficient s1)) (Fin 0) then Fin 1 else Fin (- 1))
      in (propAngularVelocity', s1))"

text \<open>
  \<open>AngularVelToThrust\<close> is a member function too (it is not declared const), so it has the
  same shape; its body only reads.
\<close>

definition AngularVelToThrust ::
  "ThrusterPrivateData \<Rightarrow> double \<Rightarrow> double \<times> ThrusterPrivateData"
where
  "AngularVelToThrust s angVel =
     (dmul (dmul (dmul (dmul (thrustCoefficient s) (dpow (propellerDiameter s) 4))
                       (dabs angVel)) angVel) (fluidDensity s), s)"

section \<open>The command callbacks\<close>

definition OnCmdThrust :: "ThrusterPrivateData \<Rightarrow> double \<Rightarrow> ThrusterPrivateData" where
  "OnCmdThrust s msg =
     (let s1 = s\<lparr>thrust := clamp (fixnan msg) (cmdMin s) (cmdMax s)\<rparr>;
          (w, s2) = ThrustToAngularVec s1 (thrust s1)
      in s2\<lparr>propellerAngVel := w\<rparr>)"

definition OnCmdAngVel :: "ThrusterPrivateData \<Rightarrow> double \<Rightarrow> ThrusterPrivateData" where
  "OnCmdAngVel s msg =
     (let s1 = s\<lparr>propellerAngVel := clamp (fixnan msg) (cmdMin s) (cmdMax s)\<rparr>;
          (t, s2) = AngularVelToThrust s1 (propellerAngVel s1)
      in s2\<lparr>thrust := t\<rparr>)"

section \<open>The host: entities, components and the update information\<close>

text \<open>
  What the system reads from and writes to the \<open>EntityComponentManager\<close>. A component
  that an entity may lack is an option. \<open>batterySoC\<close> lists the entities that carry a
  \<open>BatterySoC\<close> component with its data, in the order \<open>Each\<close> visits them.
  \<open>worldWrenches\<close> records the calls of \<open>Link::AddWorldWrench\<close> (link, force, torque).
  The lookups \<open>Model::Name\<close>, \<open>Model::JointByName\<close>, \<open>Model::LinkByName\<close>,
  \<open>ParentEntity\<close> and \<open>worldPose\<close> are total in the host and are functions here.
\<close>

record EntityComponentManager =
  nameOf :: "Entity \<Rightarrow> string"
  jointByName :: "Entity \<Rightarrow> string \<Rightarrow> Entity"
  linkByName :: "Entity \<Rightarrow> string \<Rightarrow> Entity"
  parentEntity :: "Entity \<Rightarrow> Entity"
  worldPoseOf :: "Entity \<Rightarrow> Pose3d"
  jointAxisXyz :: "Entity \<Rightarrow> Vector3d option"
  poseComp :: "Entity \<Rightarrow> Pose3d option"
  childLinkName :: "Entity \<Rightarrow> string option"
  angularVelocity :: "Entity \<Rightarrow> Vector3d option"
  worldAngularVelocity :: "Entity \<Rightarrow> Vector3d option"
  worldLinearVelocity :: "Entity \<Rightarrow> Vector3d option"
  jointVelocityCmd :: "Entity \<Rightarrow> double list option"
  batterySoC :: "(Entity \<times> double) list"
  worldWrenches :: "(Entity \<times> Vector3d \<times> Vector3d) list"

text \<open>\<open>UpdateInfo\<close>: the pause flag and the step, a duration in nanoseconds.\<close>

record UpdateInfo =
  paused :: bool
  dt :: int

text \<open>The step as a \<open>std::chrono::duration<double>\<close> in seconds.\<close>

definition dt_seconds :: "UpdateInfo \<Rightarrow> double" where
  "dt_seconds info = mk (dt info < 0) (real_of_int (dt info) / 10 ^ 9)"

text \<open>
  Dereferencing a null component pointer or an empty optional, and writing element 0 of
  an empty vector, are undefined behaviour in the source: the model stops with a fault.
\<close>

datatype fault = NullDereference | OutOfRange

section \<open>The battery gate\<close>

text \<open>
  \<open>HasSufficientBattery\<close>: \<open>result\<close> starts true, and the callback of \<open>Each\<close> sets it
  to false at an entity whose parent is the model and whose charge is \<open><= 0\<close>. The
  callback always returns true, so every entity is visited.
\<close>

definition battery_visit ::
  "ThrusterPrivateData \<Rightarrow> EntityComponentManager \<Rightarrow> bool \<Rightarrow> Entity \<times> double \<Rightarrow> bool"
where
  "battery_visit s ecm result ed =
     (if parentEntity ecm (fst ed) = modelEntity s
      then (if dle (snd ed) (Fin 0) then False else result)
      else result)"

definition HasSufficientBattery :: "ThrusterPrivateData \<Rightarrow> EntityComponentManager \<Rightarrow> bool" where
  "HasSufficientBattery s ecm = foldl (battery_visit s ecm) True (batterySoC ecm)"

section \<open>The control step\<close>

text \<open>
  \<open>Thruster::PreUpdate\<close>. Its result is the new state, the new component manager and
  the messages handed to \<open>pub.Publish\<close> (each with the publisher's topic), or a fault.
  \<open>rot\<close> stands for the gz-math expression
  \<open>(linkWorldPose * jointPose).Rot().RotateVector(jointAxis).Normalize()\<close>, a function of
  the link's world pose, the joint pose and the joint axis.

  The function is split in two: \<open>PreUpdate_control\<close> is the branch on \<open>velocityControl\<close>
  (it yields the torque, the feedback value \<open>angvel\<close>, and the updated state and
  components), and \<open>PreUpdate\<close> is the rest.
\<close>

definition PreUpdate_control ::
  "UpdateInfo \<Rightarrow> Vector3d \<Rightarrow> double \<Rightarrow> EntityComponentManager \<Rightarrow> ThrusterPrivateData \<Rightarrow>
   fault + (double \<times> double \<times> EntityComponentManager \<times> ThrusterPrivateData)"
where
  "PreUpdate_control info unitVector desiredPropellerAngVel ecm s =
     (if \<not> velocityControl s then
        (case worldAngularVelocity ecm (linkEntity s) of
           None \<Rightarrow> Inl NullDereference
         | Some av \<Rightarrow>
             let currentAngular = Dot av unitVector;
                 angularError = dsub currentAngular desiredPropellerAngVel
             in if dgt (dabs angularError) (Fin (1 / 10))
                then let (torque, c) = PID_Update (propellerController s) angularError
                                         (dt_seconds info)
                     in Inr (torque, currentAngular, ecm, s\<lparr>propellerController := c\<rparr>)
                else Inr (Fin 0, currentAngular, ecm, s))
      else
        (case jointVelocityCmd ecm (jointEntity s) of
           None \<Rightarrow>
             Inr (Fin 0, desiredPropellerAngVel,
                  ecm\<lparr>jointVelocityCmd :=
                        (jointVelocityCmd ecm)(jointEntity s \<mapsto> [desiredPropellerAngVel])\<rparr>, s)
         | Some [] \<Rightarrow> Inl OutOfRange
         | Some (v # vs) \<Rightarrow>
             Inr (Fin 0, desiredPropellerAngVel,
                  ecm\<lparr>jointVelocityCmd :=
                        (jointVelocityCmd ecm)(jointEntity s \<mapsto> desiredPropellerAngVel # vs)\<rparr>, s)))"

definition PreUpdate ::
  "(Pose3d \<Rightarrow> Pose3d \<Rightarrow> Vector3d \<Rightarrow> Vector3d) \<Rightarrow> UpdateInfo \<Rightarrow> EntityComponentManager \<Rightarrow>
   ThrusterPrivateData \<Rightarrow>
   fault + (ThrusterPrivateData \<times> EntityComponentManager \<times> (string option \<times> double) list)"
where
  "PreUpdate rot info ecm s =
     (if paused info then Inr (s, ecm, [])
      else if \<not> enabled s then Inr (s, ecm, [])
      else
        let linkWorldPose = worldPoseOf ecm (linkEntity s);
            unitVector = rot linkWorldPose (jointPose s) (jointAxis s);
            desiredThrust = thrust s;
            (w, s1) = ThrustToAngularVec s (thrust s);
            s2 = s1\<lparr>propellerAngVel := w\<rparr>;
            desiredPropellerAngVel = propellerAngVel s2
        in case PreUpdate_control info unitVector desiredPropellerAngVel ecm s2 of
             Inl f \<Rightarrow> Inl f
           | Inr (torque, angvel, ecm1, s3) \<Rightarrow>
               let published =
                     (if opmode s3 = ForceCmd then [(pub s3, angvel)]
                      else [(pub s3, desiredThrust)]);
                   ecm2 = ecm1\<lparr>worldWrenches := worldWrenches ecm1 @
                            [(linkEntity s3, vec_scale unitVector desiredThrust,
                              vec_scale unitVector torque)]\<rparr>
               in (case worldLinearVelocity ecm2 (linkEntity s3) of
                     None \<Rightarrow> Inl NullDereference
                   | Some lv \<Rightarrow> Inr (s3\<lparr>linearVelocity := Length lv\<rparr>, ecm2, published)))"

text \<open>\<open>Thruster::PostUpdate\<close>.\<close>

definition PostUpdate :: "EntityComponentManager \<Rightarrow> ThrusterPrivateData \<Rightarrow> ThrusterPrivateData" where
  "PostUpdate ecm s = s\<lparr>enabled := HasSufficientBattery s ecm\<rparr>"

section \<open>Configuration\<close>

text \<open>
  The plugin's SDF element: for each child element that \<open>Configure\<close> asks for, its
  parsed value, or \<open>None\<close> when the element is absent. \<open>HasElement\<close> is the presence
  test.
\<close>

record sdf_Element =
  sdf_namespace :: "string option"
  sdf_joint_name :: "string option"
  sdf_thrust_coefficient :: "double option"
  sdf_propeller_diameter :: "double option"
  sdf_fluid_density :: "double option"
  sdf_use_angvel_cmd :: "bool option"
  sdf_wake_fraction :: "double option"
  sdf_alpha_1 :: "double option"
  sdf_alpha_2 :: "double option"
  sdf_topic :: "string option"
  sdf_max_thrust_cmd :: "double option"
  sdf_min_thrust_cmd :: "double option"
  sdf_velocity_control :: "bool option"
  sdf_p_gain :: "double option"
  sdf_i_gain :: "double option"
  sdf_d_gain :: "double option"

definition HasElement :: "'a option \<Rightarrow> bool" where
  "HasElement e = (e \<noteq> None)"

text \<open>
  Modelled from the spec: \<open>sdf::Element::Get<T>\<close> (sdformat library, not under
  src/). It returns the value of a present element; for an absent element the spec has
  the gains "set to the default", which for \<open>Get<T>(key)\<close> is the value-initialised
  \<open>T\<close>: 0.0, false and the empty string.
\<close>

definition Get_double :: "double option \<Rightarrow> double" where
  "Get_double e = (case e of None \<Rightarrow> Fin 0 | Some v \<Rightarrow> v)"

definition Get_bool :: "bool option \<Rightarrow> bool" where
  "Get_bool e = (case e of None \<Rightarrow> False | Some v \<Rightarrow> v)"

definition Get_string :: "string option \<Rightarrow> string" where
  "Get_string e = (case e of None \<Rightarrow> [] | Some v \<Rightarrow> v)"

text \<open>
  \<open>enableComponent\<close> (gz/sim/Util.hh), as the source comments its calls: "Create
  necessary components if not present". The new component holds the zero vector.
\<close>

definition enableComponent ::
  "(Entity \<Rightarrow> Vector3d option) \<Rightarrow> Entity \<Rightarrow> (Entity \<Rightarrow> Vector3d option)"
where
  "enableComponent cs e =
     (case cs e of None \<Rightarrow> cs(e \<mapsto> Vector3d (Fin 0) (Fin 0) (Fin 0)) | Some v \<Rightarrow> cs)"

text \<open>
  \<open>Thruster::Configure\<close>, in the order of the source and in four parts. The diagnostic
  messages are not modelled. \<open>valid\<close> stands for \<open>transport::TopicUtils::AsValidTopic\<close>.

  Part one: the parameters read between the check of \<open>joint_name\<close> and the lookup of
  the joint.
\<close>

definition Configure_params ::
  "(string \<Rightarrow> string) \<Rightarrow> sdf_Element \<Rightarrow> ThrusterPrivateData \<Rightarrow> ThrusterPrivateData"
where
  "Configure_params valid sdf s =
     (let s1 = (if HasElement (sdf_thrust_coefficient sdf)
                then s\<lparr>thrustCoefficient := Get_double (sdf_thrust_coefficient sdf),
                       thrustCoefficientSet := True\<rparr>
                else s);
          s2 = (if HasElement (sdf_propeller_diameter sdf)
                then s1\<lparr>propellerDiameter := Get_double (sdf_propeller_diameter sdf)\<rparr>
                else s1);
          s3 = (if HasElement (sdf_fluid_density sdf)
                then s2\<lparr>fluidDensity := Get_double (sdf_fluid_density sdf)\<rparr>
                else s2);
          s4 = (if HasElement (sdf_use_angvel_cmd sdf)
                then s3\<lparr>opmode := (if Get_bool (sdf_use_angvel_cmd sdf)
                                      then AngVelCmd else ForceCmd)\<rparr>
                else s3);
          s5 = (if HasElement (sdf_wake_fraction sdf)
                then s4\<lparr>wakeFraction := Get_double (sdf_wake_fraction sdf)\<rparr>
                else s4);
          s6 = (if HasElement (sdf_alpha_1 sdf)
                then s5\<lparr>alpha1 := Get_double (sdf_alpha_1 sdf)\<rparr>
                else s5);
          s7 = (if HasElement (sdf_alpha_2 sdf)
                then s6\<lparr>alpha2 := Get_double (sdf_alpha_2 sdf)\<rparr>
                else s6)
      in (if HasElement (sdf_topic sdf)
          then s7\<lparr>topic := valid (Get_string (sdf_topic sdf))\<rparr>
          else s7))"

text \<open>
  Part two: the command topic, the subscription and the feedback publisher. \<open>ns\<close> is
  the namespace and \<open>jointName\<close> the joint's name.
\<close>

definition Configure_topics ::
  "(string \<Rightarrow> string) \<Rightarrow> string \<Rightarrow> string \<Rightarrow> ThrusterPrivateData \<Rightarrow> ThrusterPrivateData"
where
  "Configure_topics valid ns jointName s =
     (let (thrusterTopic, callback, feedbackTopic) =
            (if topic s \<noteq> [] then
               (if opmode s = ForceCmd
                then (valid (ns @ ''/'' @ topic s), CbOnCmdThrust,
                      valid (ns @ ''/'' @ topic s @ ''/ang_vel''))
                else (valid (ns @ ''/'' @ topic s), CbOnCmdAngVel,
                      valid (ns @ ''/'' @ topic s @ ''/force'')))
             else if opmode s = ForceCmd then
               (valid (''/model/'' @ ns @ ''/joint/'' @ jointName @ ''/cmd_thrust''),
                CbOnCmdThrust,
                valid (''/model/'' @ ns @ ''/joint/'' @ jointName @ ''/ang_vel''))
             else
               (valid (''/model/'' @ ns @ ''/joint/'' @ jointName @ ''/cmd_vel''),
                CbOnCmdAngVel,
                valid (''/model/'' @ ns @ ''/joint/'' @ jointName @ ''/force'')))
      in s\<lparr>subscriptions := subscriptions s @ [(thrusterTopic, callback)],
            pub := Some feedbackTopic\<rparr>)"

text \<open>Part three: the command bounds.\<close>

definition Configure_bounds :: "sdf_Element \<Rightarrow> ThrusterPrivateData \<Rightarrow> ThrusterPrivateData" where
  "Configure_bounds sdf s =
     (let minThrustCmd0 = cmdMin s;
          maxThrustCmd0 = cmdMax s;
          maxThrustCmd = (if HasElement (sdf_max_thrust_cmd sdf)
                          then Get_double (sdf_max_thrust_cmd sdf) else maxThrustCmd0);
          minThrustCmd = (if HasElement (sdf_min_thrust_cmd sdf)
                          then Get_double (sdf_min_thrust_cmd sdf) else minThrustCmd0)
      in if dlt maxThrustCmd minThrustCmd then s
         else s\<lparr>cmdMax := maxThrustCmd, cmdMin := minThrustCmd\<rparr>)"

text \<open>
  Part four: the control mode and the controller. The two conversions of the bounds run
  before the gains are read, the upper bound first. \<open>i_gain\<close> and \<open>d_gain\<close> are read
  where \<open>HasElement\<close> is false.
\<close>

definition Configure_pid :: "sdf_Element \<Rightarrow> ThrusterPrivateData \<Rightarrow> ThrusterPrivateData" where
  "Configure_pid sdf s =
     (let s1 = (if HasElement (sdf_velocity_control sdf)
                then s\<lparr>velocityControl := Get_bool (sdf_velocity_control sdf)\<rparr>
                else s)
      in if \<not> velocityControl s1 then
           let p0 = Fin (1 / 10);
               i0 = Fin 0;
               d0 = Fin 0;
               iMax = Fin 1;
               iMin = Fin (- 1);
               (cmdMax', s2) = ThrustToAngularVec s1 (cmdMax s1);
               (cmdMin', s3) = ThrustToAngularVec s2 (cmdMin s2);
               cmdOffset = Fin 0;
               p = (if HasElement (sdf_p_gain sdf) then Get_double (sdf_p_gain sdf) else p0);
               i = (if \<not> HasElement (sdf_i_gain sdf) then Get_double (sdf_i_gain sdf) else i0);
               d = (if \<not> HasElement (sdf_d_gain sdf) then Get_double (sdf_d_gain sdf) else d0)
           in s3\<lparr>propellerController := PID_Init p i d iMax iMin cmdMax' cmdMin' cmdOffset\<rparr>
         else s1)"

text \<open>
  The whole of \<open>Configure\<close>. It returns early, with what it has written so far, when
  \<open>joint_name\<close> is absent and when the model has no joint of that name.
\<close>

definition Configure ::
  "(string \<Rightarrow> string) \<Rightarrow> Entity \<Rightarrow> sdf_Element \<Rightarrow> EntityComponentManager \<Rightarrow>
   ThrusterPrivateData \<Rightarrow> fault + (ThrusterPrivateData \<times> EntityComponentManager)"
where
  "Configure valid entity sdf ecm s0 =
     (let s1 = s0\<lparr>modelEntity := entity\<rparr>;
          modelName = nameOf ecm entity;
          ns = (if HasElement (sdf_namespace sdf) then Get_string (sdf_namespace sdf)
                else modelName)
      in if \<not> HasElement (sdf_joint_name sdf) then Inr (s1, ecm)
         else
           let jointName = Get_string (sdf_joint_name sdf);
               s2 = Configure_params valid sdf s1;
               s3 = s2\<lparr>jointEntity := jointByName ecm entity jointName\<rparr>
           in if kNullEntity = jointEntity s3 then Inr (s3, ecm)
              else
                (case jointAxisXyz ecm (jointEntity s3) of
                   None \<Rightarrow> Inl NullDereference
                 | Some axis \<Rightarrow>
                (case poseComp ecm (jointEntity s3) of
                   None \<Rightarrow> Inl NullDereference
                 | Some pose \<Rightarrow>
                (case childLinkName ecm (jointEntity s3) of
                   None \<Rightarrow> Inl NullDereference
                 | Some childLink \<Rightarrow>
                     let s4 = s3\<lparr>jointAxis := axis, jointPose := pose,
                                  linkEntity := linkByName ecm entity childLink\<rparr>;
                         s5 = Configure_topics valid ns jointName s4;
                         ecm1 = ecm\<lparr>angularVelocity :=
                                  enableComponent (angularVelocity ecm) (linkEntity s5)\<rparr>;
                         ecm2 = ecm1\<lparr>worldAngularVelocity :=
                                  enableComponent (worldAngularVelocity ecm1) (linkEntity s5)\<rparr>;
                         ecm3 = ecm2\<lparr>worldLinearVelocity :=
                                  enableComponent (worldLinearVelocity ecm2) (linkEntity s5)\<rparr>;
                         s6 = Configure_bounds sdf s5
                     in Inr (Configure_pid sdf s6, ecm3)))))"

section \<open>Inputs used by the examples\<close>

text \<open>
  A plugin element without children; a topic function and an axis rotation that change
  nothing; and a component manager with one model (entity 5, named sub) that has a link
  (entity 6, named propeller) and a joint (entity 7, named propeller_joint) whose child is
  the link and whose axis is the x axis. Entity 8 is a child of the model, entity 9 is not.
\<close>

definition sdf_empty :: sdf_Element where
  "sdf_empty =
     \<lparr> sdf_namespace = None, sdf_joint_name = None, sdf_thrust_coefficient = None,
       sdf_propeller_diameter = None, sdf_fluid_density = None, sdf_use_angvel_cmd = None,
       sdf_wake_fraction = None, sdf_alpha_1 = None, sdf_alpha_2 = None, sdf_topic = None,
       sdf_max_thrust_cmd = None, sdf_min_thrust_cmd = None, sdf_velocity_control = None,
       sdf_p_gain = None, sdf_i_gain = None, sdf_d_gain = None \<rparr>"

definition valid_id :: "string \<Rightarrow> string" where
  "valid_id t = t"

definition rot_id :: "Pose3d \<Rightarrow> Pose3d \<Rightarrow> Vector3d \<Rightarrow> Vector3d" where
  "rot_id linkWorldPose jPose axis = axis"

definition pose_id :: Pose3d where
  "pose_id = Pose3d (Vector3d (Fin 0) (Fin 0) (Fin 0)) (Quaterniond (Fin 1) (Fin 0) (Fin 0) (Fin 0))"

definition ecm_example :: EntityComponentManager where
  "ecm_example =
     \<lparr> nameOf = (\<lambda>e. if e = 5 then ''sub'' else []),
       jointByName = (\<lambda>m n. if m = 5 \<and> n = ''propeller_joint'' then 7 else kNullEntity),
       linkByName = (\<lambda>m n. if m = 5 \<and> n = ''propeller'' then 6 else kNullEntity),
       parentEntity = (\<lambda>e. if e \<in> {6, 7, 8} then 5 else kNullEntity),
       worldPoseOf = (\<lambda>e. pose_id),
       jointAxisXyz = [7 \<mapsto> Vector3d (Fin 1) (Fin 0) (Fin 0)],
       poseComp = [7 \<mapsto> pose_id],
       childLinkName = [7 \<mapsto> ''propeller''],
       angularVelocity = Map.empty,
       worldAngularVelocity = Map.empty,
       worldLinearVelocity = Map.empty,
       jointVelocityCmd = Map.empty,
       batterySoC = [],
       worldWrenches = [] \<rparr>"

text \<open>
  The plugin element that names the joint and nothing else, and what \<open>Configure\<close>
  makes of it in \<open>ecm_example\<close> (lemma \<open>Configure_example\<close> below): the configured
  state and the component manager with the link's velocity components created.
\<close>

definition sdf_example :: sdf_Element where
  "sdf_example = sdf_empty\<lparr>sdf_joint_name := Some ''propeller_joint''\<rparr>"

definition thruster_example :: ThrusterPrivateData where
  "thruster_example =
     (Thruster_init 5 6 7)
       \<lparr>jointAxis := Vector3d (Fin 1) (Fin 0) (Fin 0),
        subscriptions := [(''/model/sub/joint/propeller_joint/cmd_thrust'', CbOnCmdThrust)],
        pub := Some ''/model/sub/joint/propeller_joint/ang_vel'',
        propellerController :=
          PID_Init (Fin (1 / 10)) (Fin 0) (Fin 0) (Fin 1) (Fin (- 1))
            (Fin 2500) (Fin (- 2500)) (Fin 0)\<rparr>"

definition ecm_configured :: EntityComponentManager where
  "ecm_configured =
     ecm_example
       \<lparr>angularVelocity := [6 \<mapsto> Vector3d (Fin 0) (Fin 0) (Fin 0)],
        worldAngularVelocity := [6 \<mapsto> Vector3d (Fin 0) (Fin 0) (Fin 0)],
        worldLinearVelocity := [6 \<mapsto> Vector3d (Fin 0) (Fin 0) (Fin 0)]\<rparr>"


definition info_example :: UpdateInfo where
  "info_example = \<lparr>paused = False, dt = 1000000\<rparr>"


section \<open>Facts about the arithmetic\<close>

lemma dmul_Fin: "dmul (Fin a) (Fin b) = mk ((a < 0) \<noteq> (b < 0)) (a * b)"
  by (simp add: dmul_def)

lemma ddiv_Fin: "b \<noteq> 0 \<Longrightarrow> ddiv (Fin a) (Fin b) = mk ((a < 0) \<noteq> (b < 0)) (a / b)"
  by (simp add: ddiv_def)


lemma mk_nonzero: "x \<noteq> 0 \<Longrightarrow> mk n x = Fin x"
  by (simp add: mk_def)

lemma dabs_mk: "dabs (mk n x) = Fin \<bar>x\<bar>"
  by (simp add: mk_def szero_def)


lemma rv_mk: "rv (mk n x) = x"
  by (simp add: mk_def szero_def)

lemma dgt_mk_0: "dgt (mk n x) (Fin 0) = (0 < x)"
  by (simp add: dgt_def mk_def szero_def)



lemma dpow4_Fin: "dpow (Fin d) 4 = Fin (d ^ 4)"
  by (simp add: dpow_def)

lemma snd_T2A:
  "snd (ThrustToAngularVec s t) =
     (if \<not> thrustCoefficientSet s \<and> dgt (dabs (propellerAngVel s)) epsilon
      then UpdateThrustCoefficient s else s)"
  by (simp add: ThrustToAngularVec_def Let_def)

lemma fst_T2A:
  "fst (ThrustToAngularVec s t) =
     (let s1 = snd (ThrustToAngularVec s t) in
       dmul (dsqrt (dabs (ddiv t
              (dmul (dmul (fluidDensity s1) (thrustCoefficient s1))
                    (dpow (propellerDiameter s1) 4)))))
            (if dgt (dmul t (thrustCoefficient s1)) (Fin 0) then Fin 1 else Fin (- 1)))"
  by (simp add: ThrustToAngularVec_def Let_def)

lemma T2A_frame:
  "fluidDensity (snd (ThrustToAngularVec s t)) = fluidDensity s"
  "propellerDiameter (snd (ThrustToAngularVec s t)) = propellerDiameter s"
  by (simp_all add: snd_T2A UpdateThrustCoefficient_def)

lemma den_Fin:
  assumes "c \<noteq> 0" "r \<noteq> 0" "d \<noteq> 0"
  shows "dmul (dmul (Fin r) (Fin c)) (dpow (Fin d) 4) = Fin (r * c * d ^ 4)"
  using assms by (simp add: dmul_Fin dpow4_Fin mk_nonzero)


lemma mag_Fin:
  assumes "k \<noteq> 0"
  shows "dsqrt (dabs (ddiv (Fin x) (Fin k))) = Fin (sqrt \<bar>x / k\<bar>)"
proof -
  have "dabs (ddiv (Fin x) (Fin k)) = Fin \<bar>x / k\<bar>"
    by (simp only: ddiv_Fin [OF assms] dabs_mk)
  moreover have "\<not> \<bar>x / k\<bar> < 0"
    by (simp only: not_less abs_ge_zero)
  ultimately show ?thesis
    by (simp only: dsqrt.simps if_False)
qed



lemma conv_Fin_pos:
  assumes "c \<noteq> 0" "r \<noteq> 0" "d \<noteq> 0" "0 < x * c"
  shows "dmul (dsqrt (dabs (ddiv (Fin x) (dmul (dmul (Fin r) (Fin c)) (dpow (Fin d) 4)))))
            (if dgt (dmul (Fin x) (Fin c)) (Fin 0) then Fin 1 else Fin (- 1))
         = Fin (sqrt \<bar>x / (r * c * d ^ 4)\<bar>)"
proof -
  have k: "r * c * d ^ 4 \<noteq> 0" using assms by simp
  have x: "x \<noteq> 0" using assms by auto
  define q where "q = sqrt \<bar>x / (r * c * d ^ 4)\<bar>"
  have q: "q \<noteq> 0" using k x by (simp add: q_def)
  have m: "dsqrt (dabs (ddiv (Fin x) (dmul (dmul (Fin r) (Fin c)) (dpow (Fin d) 4)))) = Fin q"
    unfolding q_def by (simp only: den_Fin [OF assms(1-3)] mag_Fin [OF k])
  have g: "dgt (dmul (Fin x) (Fin c)) (Fin 0)"
    using assms(4) by (simp only: dmul_Fin dgt_mk_0)
  have "dmul (Fin q) (Fin 1) = Fin q"
    using q by (simp add: dmul_Fin mk_nonzero)
  then show ?thesis
    using m g by (simp only: if_True q_def)
qed










lemma iszero_szero: "iszero (szero n)" 
  by (simp add: szero_def)










section \<open>The two conversions\<close>

lemma snd_A2T: "snd (AngularVelToThrust s a) = s"
  by (simp add: AngularVelToThrust_def)

lemma T2A_fst_Fin:
  assumes "thrustCoefficient (snd (ThrustToAngularVec s t)) = Fin c"
    and "fluidDensity s = Fin r" and "propellerDiameter s = Fin d"
  shows "fst (ThrustToAngularVec s t) =
           dmul (dsqrt (dabs (ddiv t (dmul (dmul (Fin r) (Fin c)) (dpow (Fin d) 4)))))
                (if dgt (dmul t (Fin c)) (Fin 0) then Fin 1 else Fin (- 1))"
  using assms by (simp add: fst_T2A Let_def T2A_frame)

lemma T2A_fixed:
  assumes "thrustCoefficientSet s \<or> \<not> dgt (dabs (propellerAngVel s)) epsilon"
  shows "snd (ThrustToAngularVec s t) = s"
  using assms by (auto simp add: snd_T2A)








text \<open>
  Claim C3. \<open>AngularVelToThrust\<close> returns the state it was given, whatever its input, and
  the callback that uses it, \<open>OnCmdAngVel\<close>, leaves the thrust coefficient alone.
  \<open>ThrustToAngularVec\<close> returns the state unchanged when the coefficient was set by
  configuration or the magnitude of the stored propeller angular velocity does not exceed
  epsilon; otherwise it returns the state after \<open>UpdateThrustCoefficient\<close>; in both cases
  the thrust coefficient is the only field that can differ.
\<close>

theorem C3_recompute_frame:
  "snd (AngularVelToThrust s a) = s \<and>
   thrustCoefficient (OnCmdAngVel s v) = thrustCoefficient s \<and>
   (thrustCoefficientSet s \<or> \<not> dgt (dabs (propellerAngVel s)) epsilon
      \<longrightarrow> snd (ThrustToAngularVec s t) = s) \<and>
   (\<not> thrustCoefficientSet s \<and> dgt (dabs (propellerAngVel s)) epsilon
      \<longrightarrow> snd (ThrustToAngularVec s t) = UpdateThrustCoefficient s) \<and>
   snd (ThrustToAngularVec s t) =
     s\<lparr>thrustCoefficient := thrustCoefficient (snd (ThrustToAngularVec s t))\<rparr>"
  by (simp add: snd_A2T snd_T2A OnCmdAngVel_def AngularVelToThrust_def
      UpdateThrustCoefficient_def Let_def)

text \<open>
  Three states: the initial one (stored angular velocity 0: nothing changes); one with a
  stored angular velocity of 10 rad/s, \<open>alpha2 = 1\<close> and a linear velocity of 0.25 m/s
  (the coefficient becomes 1 + 1 * ((1 - 0.2) * 0.25) / (10 * 0.02) = 2); and the same with
  the coefficient set by configuration (nothing changes).
\<close>

theorem C3_recompute_frame_witness:
  "snd (ThrustToAngularVec (Thruster_init 5 6 7) (Fin 100)) = Thruster_init 5 6 7 \<and>
   snd (ThrustToAngularVec
          ((Thruster_init 5 6 7)\<lparr>propellerAngVel := Fin 10, alpha2 := Fin 1,
                                  linearVelocity := Fin (1 / 4)\<rparr>) (Fin 100))
     = (Thruster_init 5 6 7)\<lparr>propellerAngVel := Fin 10, alpha2 := Fin 1,
                              linearVelocity := Fin (1 / 4), thrustCoefficient := Fin 2\<rparr> \<and>
   snd (ThrustToAngularVec
          ((Thruster_init 5 6 7)\<lparr>propellerAngVel := Fin 10, alpha2 := Fin 1,
                                  linearVelocity := Fin (1 / 4), thrustCoefficientSet := True\<rparr>)
          (Fin 100))
     = (Thruster_init 5 6 7)\<lparr>propellerAngVel := Fin 10, alpha2 := Fin 1,
                              linearVelocity := Fin (1 / 4), thrustCoefficientSet := True\<rparr>"
proof -
  let ?s = "(Thruster_init 5 6 7)\<lparr>propellerAngVel := Fin 10, alpha2 := Fin 1,
                                  linearVelocity := Fin (1 / 4)\<rparr>"
  have u: "UpdateThrustCoefficient ?s = ?s\<lparr>thrustCoefficient := Fin 2\<rparr>"
    by (simp add: UpdateThrustCoefficient_def Thruster_init_def dadd_def dsub_def dmul_def
        ddiv_def mk_def szero_def)
  have g: "dgt (dabs (Fin 10)) epsilon"
    by (simp add: dgt_def epsilon_def)
  show ?thesis
    using C3_recompute_frame [of "Thruster_init 5 6 7" "Fin 0" "Fin 0" "Fin 100"]
      C3_recompute_frame [of ?s "Fin 0" "Fin 0" "Fin 100"]
      C3_recompute_frame [of "?s\<lparr>thrustCoefficientSet := True\<rparr>" "Fin 0" "Fin 0" "Fin 100"]
    by (simp add: g u) (simp add: Thruster_init_def epsilon_def dgt_def)
qed

section \<open>What the command callbacks store\<close>


lemma dlt_asym: "dlt a b \<Longrightarrow> \<not> dlt b a"
  by (cases a; cases b; simp)




lemma thrust_OnCmdThrust:
  "thrust (OnCmdThrust s v) = clamp (fixnan v) (cmdMin s) (cmdMax s)"
  by (simp add: OnCmdThrust_def Let_def case_prod_beta snd_T2A UpdateThrustCoefficient_def)




section \<open>Properties of the battery gate\<close>

lemma battery_fold:
  "foldl (battery_visit s ecm) acc xs =
     (acc \<and> (\<forall>ed \<in> set xs. \<not> (parentEntity ecm (fst ed) = modelEntity s \<and> dle (snd ed) (Fin 0))))"
  by (induction xs arbitrary: acc) (auto simp add: battery_visit_def)

lemma HasSufficientBattery_iff:
  "HasSufficientBattery s ecm =
     (\<forall>ed \<in> set (batterySoC ecm).
        parentEntity ecm (fst ed) = modelEntity s \<longrightarrow> \<not> dle (snd ed) (Fin 0))"
  by (auto simp add: HasSufficientBattery_def battery_fold)

text \<open>
  Claim C6. \<open>HasSufficientBattery\<close> returns true when no entity with a charge reading
  has the model as its parent (in particular when there is no reading at all), and false
  when at least one reading of an entity whose parent is the model is \<open><= 0\<close>.
\<close>

theorem C6_battery_gate:
  "((\<forall>ed \<in> set (batterySoC ecm). parentEntity ecm (fst ed) \<noteq> modelEntity s)
      \<longrightarrow> HasSufficientBattery s ecm) \<and>
   ((\<exists>ed \<in> set (batterySoC ecm). parentEntity ecm (fst ed) = modelEntity s \<and> dle (snd ed) (Fin 0))
      \<longrightarrow> \<not> HasSufficientBattery s ecm)"
  by (auto simp add: HasSufficientBattery_iff)

text \<open>
  No reading; one empty battery that belongs to another model; and three readings of
  which the second belongs to the model and is empty.
\<close>

theorem C6_battery_gate_witness:
  "HasSufficientBattery (Thruster_init 5 6 7) ecm_example \<and>
   HasSufficientBattery (Thruster_init 5 6 7) (ecm_example\<lparr>batterySoC := [(9, Fin 0)]\<rparr>) \<and>
   \<not> HasSufficientBattery (Thruster_init 5 6 7)
        (ecm_example\<lparr>batterySoC := [(8, Fin (1 / 2)), (6, Fin 0), (9, Fin 1)]\<rparr>)"
proof -
  let ?s = "Thruster_init 5 6 7"
  have m: "modelEntity ?s = 5" by (simp add: Thruster_init_def)
  have a: "\<forall>ed \<in> set (batterySoC ecm_example). parentEntity ecm_example (fst ed) \<noteq> modelEntity ?s"
    by (simp add: ecm_example_def)
  have b: "\<forall>ed \<in> set (batterySoC (ecm_example\<lparr>batterySoC := [(9, Fin 0)]\<rparr>)).
             parentEntity (ecm_example\<lparr>batterySoC := [(9, Fin 0)]\<rparr>) (fst ed) \<noteq> modelEntity ?s"
    by (simp add: ecm_example_def m kNullEntity_def)
  have c: "\<exists>ed \<in> set (batterySoC (ecm_example\<lparr>batterySoC := [(8, Fin (1 / 2)), (6, Fin 0), (9, Fin 1)]\<rparr>)).
             parentEntity (ecm_example\<lparr>batterySoC := [(8, Fin (1 / 2)), (6, Fin 0), (9, Fin 1)]\<rparr>) (fst ed)
               = modelEntity ?s \<and> dle (snd ed) (Fin 0)"
    by (simp add: ecm_example_def m dle_def)
  show ?thesis
    using C6_battery_gate [of ecm_example ?s] a
      C6_battery_gate [of "ecm_example\<lparr>batterySoC := [(9, Fin 0)]\<rparr>" ?s] b
      C6_battery_gate [of "ecm_example\<lparr>batterySoC := [(8, Fin (1 / 2)), (6, Fin 0), (9, Fin 1)]\<rparr>" ?s] c
    by blast
qed

section \<open>Properties of the configuration\<close>

lemma Configure_params_fields:
  "thrustCoefficient (Configure_params valid sdf s) =
     (case sdf_thrust_coefficient sdf of None \<Rightarrow> thrustCoefficient s | Some v \<Rightarrow> v)"
  "thrustCoefficientSet (Configure_params valid sdf s) =
     (thrustCoefficientSet s \<or> sdf_thrust_coefficient sdf \<noteq> None)"
  "propellerDiameter (Configure_params valid sdf s) =
     (case sdf_propeller_diameter sdf of None \<Rightarrow> propellerDiameter s | Some v \<Rightarrow> v)"
  "fluidDensity (Configure_params valid sdf s) =
     (case sdf_fluid_density sdf of None \<Rightarrow> fluidDensity s | Some v \<Rightarrow> v)"
  "alpha1 (Configure_params valid sdf s) =
     (case sdf_alpha_1 sdf of None \<Rightarrow> alpha1 s | Some v \<Rightarrow> v)"
  "alpha2 (Configure_params valid sdf s) =
     (case sdf_alpha_2 sdf of None \<Rightarrow> alpha2 s | Some v \<Rightarrow> v)"
  "propellerAngVel (Configure_params valid sdf s) = propellerAngVel s"
  "thrust (Configure_params valid sdf s) = thrust s"
  "cmdMax (Configure_params valid sdf s) = cmdMax s"
  "cmdMin (Configure_params valid sdf s) = cmdMin s"
  "velocityControl (Configure_params valid sdf s) = velocityControl s"
  "propellerController (Configure_params valid sdf s) = propellerController s"
  "linearVelocity (Configure_params valid sdf s) = linearVelocity s"
  by (simp_all add: Configure_params_def Let_def HasElement_def Get_double_def
      split: option.split)


lemma Configure_topics_eq:
  "Configure_topics valid ns jn s =
     s\<lparr>subscriptions := subscriptions (Configure_topics valid ns jn s),
       pub := pub (Configure_topics valid ns jn s)\<rparr>"
  by (simp add: Configure_topics_def Let_def case_prod_beta)

lemma Configure_bounds_eq:
  "Configure_bounds sdf s =
     s\<lparr>cmdMax := cmdMax (Configure_bounds sdf s), cmdMin := cmdMin (Configure_bounds sdf s)\<rparr>"
  by (simp add: Configure_bounds_def Let_def)

lemma Configure_bounds_default:
  "sdf_max_thrust_cmd sdf = None \<Longrightarrow> sdf_min_thrust_cmd sdf = None \<Longrightarrow>
   Configure_bounds sdf s = s"
  by (simp add: Configure_bounds_def Let_def HasElement_def)

lemma Configure_bounds_ordered:
  "\<not> dlt (cmdMax s) (cmdMin s) \<Longrightarrow>
   \<not> dlt (cmdMax (Configure_bounds sdf s)) (cmdMin (Configure_bounds sdf s))"
  by (simp add: Configure_bounds_def Let_def)

lemma Configure_pid_quiet:
  assumes "thrustCoefficientSet s \<or> \<not> dgt (dabs (propellerAngVel s)) epsilon"
  shows "Configure_pid sdf s =
     (let v = (case sdf_velocity_control sdf of None \<Rightarrow> velocityControl s | Some b \<Rightarrow> b) in
      if v then s\<lparr>velocityControl := v\<rparr>
      else s\<lparr>velocityControl := v,
             propellerController :=
               PID_Init (case sdf_p_gain sdf of None \<Rightarrow> Fin (1 / 10) | Some p \<Rightarrow> p)
                 (Fin 0) (Fin 0) (Fin 1) (Fin (- 1))
                 (fst (ThrustToAngularVec (s\<lparr>velocityControl := v\<rparr>) (cmdMax s)))
                 (fst (ThrustToAngularVec (s\<lparr>velocityControl := v\<rparr>) (cmdMin s)))
                 (Fin 0)\<rparr>)"
proof -
  define s1 where "s1 = (if HasElement (sdf_velocity_control sdf)
                then s\<lparr>velocityControl := Get_bool (sdf_velocity_control sdf)\<rparr>
                else s)"
  have s1: "s1 = s\<lparr>velocityControl :=
                 (case sdf_velocity_control sdf of None \<Rightarrow> velocityControl s | Some b \<Rightarrow> b)\<rparr>"
    by (simp add: s1_def HasElement_def Get_bool_def split: option.split)
  have q: "thrustCoefficientSet s1 \<or> \<not> dgt (dabs (propellerAngVel s1)) epsilon"
    using assms by (simp add: s1)
  have t: "snd (ThrustToAngularVec s1 t) = s1" for t
    using q by (rule T2A_fixed)
  have "Configure_pid sdf s =
     (if \<not> velocityControl s1 then
        s1\<lparr>propellerController :=
             PID_Init (if HasElement (sdf_p_gain sdf) then Get_double (sdf_p_gain sdf) else Fin (1 / 10))
               (if \<not> HasElement (sdf_i_gain sdf) then Get_double (sdf_i_gain sdf) else Fin 0)
               (if \<not> HasElement (sdf_d_gain sdf) then Get_double (sdf_d_gain sdf) else Fin 0)
               (Fin 1) (Fin (- 1))
               (fst (ThrustToAngularVec s1 (cmdMax s1)))
               (fst (ThrustToAngularVec s1 (cmdMin s1))) (Fin 0)\<rparr>
      else s1)"
    unfolding Configure_pid_def s1_def [symmetric]
    by (simp add: Let_def case_prod_beta t)
  also have "(if \<not> HasElement (sdf_i_gain sdf) then Get_double (sdf_i_gain sdf) else Fin 0) = Fin 0"
    by (simp add: HasElement_def Get_double_def)
  also have "(if \<not> HasElement (sdf_d_gain sdf) then Get_double (sdf_d_gain sdf) else Fin 0) = Fin 0"
    by (simp add: HasElement_def Get_double_def)
  also have "(if HasElement (sdf_p_gain sdf) then Get_double (sdf_p_gain sdf) else Fin (1 / 10))
             = (case sdf_p_gain sdf of None \<Rightarrow> Fin (1 / 10) | Some p \<Rightarrow> p)"
    by (simp add: HasElement_def Get_double_def split: option.split)
  finally show ?thesis
    by (simp add: s1 Let_def)
qed


lemma Configure_cases:
  assumes "Configure valid entity sdf ecm s0 = Inr (s, ecm')"
  obtains
    (no_joint_name) "sdf_joint_name sdf = None" "s = s0\<lparr>modelEntity := entity\<rparr>"
  | (no_joint) "sdf_joint_name sdf \<noteq> None"
      "jointByName ecm entity (Get_string (sdf_joint_name sdf)) = kNullEntity"
      "s = (Configure_params valid sdf (s0\<lparr>modelEntity := entity\<rparr>))\<lparr>jointEntity := kNullEntity\<rparr>"
  | (complete) axis pose childLink ns where
      "sdf_joint_name sdf \<noteq> None"
      "jointByName ecm entity (Get_string (sdf_joint_name sdf)) \<noteq> kNullEntity"
      "s = Configure_pid sdf (Configure_bounds sdf
             (Configure_topics valid ns (Get_string (sdf_joint_name sdf))
                ((Configure_params valid sdf (s0\<lparr>modelEntity := entity\<rparr>))
                   \<lparr>jointEntity := jointByName ecm entity (Get_string (sdf_joint_name sdf)),
                    jointAxis := axis, jointPose := pose,
                    linkEntity := linkByName ecm entity childLink\<rparr>)))"
proof (cases "sdf_joint_name sdf = None")
  case True
  then have "s = s0\<lparr>modelEntity := entity\<rparr>"
    using assms by (simp add: Configure_def Let_def HasElement_def)
  with True show ?thesis by (rule no_joint_name)
next
  case jn: False
  show ?thesis
  proof (cases "jointByName ecm entity (Get_string (sdf_joint_name sdf)) = kNullEntity")
    case True
    then have "s = (Configure_params valid sdf (s0\<lparr>modelEntity := entity\<rparr>))\<lparr>jointEntity := kNullEntity\<rparr>"
      using assms jn by (simp add: Configure_def Let_def HasElement_def)
    with jn True show ?thesis by (rule no_joint)
  next
    case False
    then have ne: "kNullEntity \<noteq> jointByName ecm entity (Get_string (sdf_joint_name sdf))"
      by simp
    from assms jn ne obtain axis pose childLink where
      "s = Configure_pid sdf (Configure_bounds sdf
             (Configure_topics valid
                (if HasElement (sdf_namespace sdf) then Get_string (sdf_namespace sdf)
                 else nameOf ecm entity)
                (Get_string (sdf_joint_name sdf))
                ((Configure_params valid sdf (s0\<lparr>modelEntity := entity\<rparr>))
                   \<lparr>jointEntity := jointByName ecm entity (Get_string (sdf_joint_name sdf)),
                    jointAxis := axis, jointPose := pose,
                    linkEntity := linkByName ecm entity childLink\<rparr>)))"
      by (auto simp add: Configure_def Let_def HasElement_def split: option.splits)
    with jn False show ?thesis by (rule complete)
  qed
qed

lemma gain_read: "(if \<not> HasElement e then Get_double e else Fin 0) = Fin 0"
  by (simp add: HasElement_def Get_double_def)

lemma Configure_pid_alt:
  "Configure_pid sdf s =
     (let s1 = (if HasElement (sdf_velocity_control sdf)
                then s\<lparr>velocityControl := Get_bool (sdf_velocity_control sdf)\<rparr>
                else s)
      in if \<not> velocityControl s1 then
           let r1 = ThrustToAngularVec s1 (cmdMax s1);
               r2 = ThrustToAngularVec (snd r1) (cmdMin (snd r1))
           in (snd r2)\<lparr>propellerController :=
                 PID_Init (case sdf_p_gain sdf of None \<Rightarrow> Fin (1 / 10) | Some p \<Rightarrow> p)
                   (Fin 0) (Fin 0) (Fin 1) (Fin (- 1)) (fst r1) (fst r2) (Fin 0)\<rparr>
         else s1)"
proof -
  have p: "(if HasElement (sdf_p_gain sdf) then Get_double (sdf_p_gain sdf) else Fin (1 / 10))
             = (case sdf_p_gain sdf of None \<Rightarrow> Fin (1 / 10) | Some p \<Rightarrow> p)"
    by (simp add: HasElement_def Get_double_def split: option.split)
  show ?thesis
    unfolding Configure_pid_def Let_def case_prod_beta gain_read p ..
qed

lemma Configure_pid_indep:
  "Configure_pid (sdf\<lparr>sdf_i_gain := gi, sdf_d_gain := gd\<rparr>) s = Configure_pid sdf s"
  by (simp add: Configure_pid_alt Let_def)


lemma Configure_params_indep:
  "Configure_params valid (sdf\<lparr>sdf_i_gain := gi, sdf_d_gain := gd\<rparr>) s =
   Configure_params valid sdf s"
proof -
  have f: "sdf_thrust_coefficient (sdf\<lparr>sdf_i_gain := gi, sdf_d_gain := gd\<rparr>) = sdf_thrust_coefficient sdf"
    "sdf_propeller_diameter (sdf\<lparr>sdf_i_gain := gi, sdf_d_gain := gd\<rparr>) = sdf_propeller_diameter sdf"
    "sdf_fluid_density (sdf\<lparr>sdf_i_gain := gi, sdf_d_gain := gd\<rparr>) = sdf_fluid_density sdf"
    "sdf_use_angvel_cmd (sdf\<lparr>sdf_i_gain := gi, sdf_d_gain := gd\<rparr>) = sdf_use_angvel_cmd sdf"
    "sdf_wake_fraction (sdf\<lparr>sdf_i_gain := gi, sdf_d_gain := gd\<rparr>) = sdf_wake_fraction sdf"
    "sdf_alpha_1 (sdf\<lparr>sdf_i_gain := gi, sdf_d_gain := gd\<rparr>) = sdf_alpha_1 sdf"
    "sdf_alpha_2 (sdf\<lparr>sdf_i_gain := gi, sdf_d_gain := gd\<rparr>) = sdf_alpha_2 sdf"
    "sdf_topic (sdf\<lparr>sdf_i_gain := gi, sdf_d_gain := gd\<rparr>) = sdf_topic sdf"
    by simp_all
  show ?thesis
    unfolding Configure_params_def by (simp only: f)
qed

lemma Configure_bounds_indep:
  "Configure_bounds (sdf\<lparr>sdf_i_gain := gi, sdf_d_gain := gd\<rparr>) s = Configure_bounds sdf s"
proof -
  have f: "sdf_max_thrust_cmd (sdf\<lparr>sdf_i_gain := gi, sdf_d_gain := gd\<rparr>) = sdf_max_thrust_cmd sdf"
    "sdf_min_thrust_cmd (sdf\<lparr>sdf_i_gain := gi, sdf_d_gain := gd\<rparr>) = sdf_min_thrust_cmd sdf"
    by simp_all
  show ?thesis
    unfolding Configure_bounds_def by (simp only: f)
qed

lemma Configure_indep:
  "Configure valid entity (sdf\<lparr>sdf_i_gain := gi, sdf_d_gain := gd\<rparr>) ecm s0 =
   Configure valid entity sdf ecm s0"
proof -
  have f: "sdf_namespace (sdf\<lparr>sdf_i_gain := gi, sdf_d_gain := gd\<rparr>) = sdf_namespace sdf"
    "sdf_joint_name (sdf\<lparr>sdf_i_gain := gi, sdf_d_gain := gd\<rparr>) = sdf_joint_name sdf"
    by simp_all
  show ?thesis
    unfolding Configure_def
    by (simp only: f Configure_pid_indep Configure_params_indep Configure_bounds_indep)
qed


lemma snd_T2A_eq:
  "snd (ThrustToAngularVec s t) =
     s\<lparr>thrustCoefficient := thrustCoefficient (snd (ThrustToAngularVec s t))\<rparr>"
  by (simp add: snd_T2A UpdateThrustCoefficient_def)

lemma T2A_keeps:
  "velocityControl (snd (ThrustToAngularVec s t)) = velocityControl s"
  "propellerController (snd (ThrustToAngularVec s t)) = propellerController s"
  "cmdMin (snd (ThrustToAngularVec s t)) = cmdMin s"
  "cmdMax (snd (ThrustToAngularVec s t)) = cmdMax s"
  by (subst snd_T2A_eq, simp)+

lemma Configure_pid_controller:
  "velocityControl (Configure_pid sdf s) \<Longrightarrow>
     propellerController (Configure_pid sdf s) = propellerController s"
  "\<not> velocityControl (Configure_pid sdf s) \<Longrightarrow>
     IGain (propellerController (Configure_pid sdf s)) = Fin 0 \<and>
     DGain (propellerController (Configure_pid sdf s)) = Fin 0 \<and>
     PGain (propellerController (Configure_pid sdf s)) =
       (case sdf_p_gain sdf of None \<Rightarrow> Fin (1 / 10) | Some p \<Rightarrow> p)"
  by (simp_all add: Configure_pid_alt Let_def T2A_keeps PID_Init_def split: if_splits)

text \<open>
  Claim C9. When \<open>Configure\<close> runs to its end in PID mode, the controller is initialised
  with an integral gain of 0 and a derivative gain of 0, whatever the configuration holds,
  while the proportional gain is the configured \<open>p_gain\<close> (0.1 when absent); in every
  other case (early return, velocity control) the controller is left as it was. The
  result of \<open>Configure\<close> is the same for every content of the \<open>i_gain\<close> and \<open>d_gain\<close>
  elements: present with any value, or absent.
\<close>

theorem C9_gains_not_applied:
  assumes "Configure valid entity sdf ecm s0 = Inr (s, ecm')"
  shows "(sdf_joint_name sdf \<noteq> None \<and>
          jointByName ecm entity (Get_string (sdf_joint_name sdf)) \<noteq> kNullEntity \<and>
          \<not> velocityControl s
            \<longrightarrow> IGain (propellerController s) = Fin 0 \<and>
                DGain (propellerController s) = Fin 0 \<and>
                PGain (propellerController s) =
                  (case sdf_p_gain sdf of None \<Rightarrow> Fin (1 / 10) | Some p \<Rightarrow> p)) \<and>
         (sdf_joint_name sdf = None \<or>
          jointByName ecm entity (Get_string (sdf_joint_name sdf)) = kNullEntity \<or>
          velocityControl s
            \<longrightarrow> propellerController s = propellerController s0) \<and>
         Configure valid entity (sdf\<lparr>sdf_i_gain := gi, sdf_d_gain := gd\<rparr>) ecm s0 = Inr (s, ecm')"
  using assms
proof (cases rule: Configure_cases)
  case no_joint_name
  then show ?thesis
    using assms by (simp add: Configure_indep)
next
  case no_joint
  then show ?thesis
    using assms by (simp add: Configure_indep Configure_params_fields)
next
  case (complete axis pose childLink ns)
  let ?t = "Configure_bounds sdf
             (Configure_topics valid ns (Get_string (sdf_joint_name sdf))
                ((Configure_params valid sdf (s0\<lparr>modelEntity := entity\<rparr>))
                   \<lparr>jointEntity := jointByName ecm entity (Get_string (sdf_joint_name sdf)),
                    jointAxis := axis, jointPose := pose,
                    linkEntity := linkByName ecm entity childLink\<rparr>))"
  have pc: "propellerController ?t = propellerController s0"
    by (subst Configure_bounds_eq, subst Configure_topics_eq) (simp add: Configure_params_fields)
  have s: "s = Configure_pid sdf ?t" by (rule complete(3))
  have a: "velocityControl s \<longrightarrow> propellerController s = propellerController s0"
    unfolding s using Configure_pid_controller(1) [of sdf ?t] pc by simp
  have b: "\<not> velocityControl s \<longrightarrow> IGain (propellerController s) = Fin 0 \<and>
                DGain (propellerController s) = Fin 0 \<and>
                PGain (propellerController s) =
                  (case sdf_p_gain sdf of None \<Rightarrow> Fin (1 / 10) | Some p \<Rightarrow> p)"
    unfolding s using Configure_pid_controller(2) [of sdf ?t] by simp
  show ?thesis
    using complete(1,2) a b assms by (auto simp add: Configure_indep)
qed

subsection \<open>The configuration of the examples\<close>

lemma Configure_complete:
  assumes "sdf_joint_name sdf = Some jn" and "jointByName ecm entity jn \<noteq> kNullEntity"
    and "jointAxisXyz ecm (jointByName ecm entity jn) = Some axis"
    and "poseComp ecm (jointByName ecm entity jn) = Some pose"
    and "childLinkName ecm (jointByName ecm entity jn) = Some cl"
  shows "Configure valid entity sdf ecm s0 =
     Inr (Configure_pid sdf (Configure_bounds sdf
            (Configure_topics valid
               (if HasElement (sdf_namespace sdf) then Get_string (sdf_namespace sdf)
                else nameOf ecm entity) jn
               ((Configure_params valid sdf (s0\<lparr>modelEntity := entity\<rparr>))
                  \<lparr>jointEntity := jointByName ecm entity jn, jointAxis := axis,
                   jointPose := pose, linkEntity := linkByName ecm entity cl\<rparr>))),
          ecm\<lparr>angularVelocity :=
                 enableComponent (angularVelocity ecm) (linkByName ecm entity cl),
              worldAngularVelocity :=
                 enableComponent (worldAngularVelocity ecm) (linkByName ecm entity cl),
              worldLinearVelocity :=
                 enableComponent (worldLinearVelocity ecm) (linkByName ecm entity cl)\<rparr>)"
proof -
  have j: "HasElement (sdf_joint_name sdf)" "Get_string (sdf_joint_name sdf) = jn"
    by (simp_all add: assms(1) HasElement_def Get_string_def)
  have l: "linkEntity (Configure_topics valid ns jn t) = linkEntity t" for ns t
    by (subst Configure_topics_eq) simp
  have k: "kNullEntity \<noteq> jointByName ecm entity jn"
    using assms(2) by simp
  show ?thesis
    unfolding Configure_def
    using assms(3-5) k
    by (simp add: Let_def j l)
qed

lemma sqrt_6250000: "sqrt 6250000 = 2500"
  by (rule real_sqrt_unique) simp_all

lemma T2A_init_1000:
  assumes "thrustCoefficientSet s \<or> \<not> dgt (dabs (propellerAngVel s)) epsilon"
    and "thrustCoefficient s = Fin 1" and "fluidDensity s = Fin 1000"
    and "propellerDiameter s = Fin (2 / 100)"
  shows "fst (ThrustToAngularVec s (Fin 1000)) = Fin 2500"
    and "fst (ThrustToAngularVec s (Fin (- 1000))) = Fin (- 2500)"
    and "fst (ThrustToAngularVec s (Fin 0)) = NZero"
proof -
  have s: "snd (ThrustToAngularVec s t) = s" for t
    using assms(1) by (rule T2A_fixed)
  have e: "fst (ThrustToAngularVec s t) =
           dmul (dsqrt (dabs (ddiv t (dmul (dmul (Fin 1000) (Fin 1)) (dpow (Fin (2 / 100)) 4)))))
                (if dgt (dmul t (Fin 1)) (Fin 0) then Fin 1 else Fin (- 1))" for t
    by (rule T2A_fst_Fin) (simp_all add: s assms)
  have d: "dmul (dmul (Fin 1000) (Fin 1)) (dpow (Fin (2 / 100)) 4) = Fin (16 / 100000)"
    by (simp add: dmul_def dpow_def mk_def power4_eq_xxxx)
  show "fst (ThrustToAngularVec s (Fin 1000)) = Fin 2500"
    unfolding e d by (simp add: ddiv_def dmul_def mk_def dgt_def sqrt_6250000)
  show "fst (ThrustToAngularVec s (Fin (- 1000))) = Fin (- 2500)"
    unfolding e d by (simp add: ddiv_def dmul_def mk_def dgt_def sqrt_6250000)
  show "fst (ThrustToAngularVec s (Fin 0)) = NZero"
    unfolding e d by (simp add: ddiv_def dmul_def mk_def szero_def dgt_def)
qed


lemma Configure_example_gen:
  assumes "sdf_joint_name sdf = Some ''propeller_joint''"
  shows "Configure valid_id 5 sdf ecm_example s0 =
     Inr (Configure_pid sdf (Configure_bounds sdf
            (Configure_topics valid_id
               (if HasElement (sdf_namespace sdf) then Get_string (sdf_namespace sdf) else ''sub'')
               ''propeller_joint''
               ((Configure_params valid_id sdf (s0\<lparr>modelEntity := 5\<rparr>))
                  \<lparr>jointEntity := 7, jointAxis := Vector3d (Fin 1) (Fin 0) (Fin 0),
                   jointPose := pose_id, linkEntity := 6\<rparr>))),
          ecm_configured)"
proof -
  have j: "jointByName ecm_example 5 ''propeller_joint'' = 7"
    by (simp add: ecm_example_def)
  have "Configure valid_id 5 sdf ecm_example s0 =
     Inr (Configure_pid sdf (Configure_bounds sdf
            (Configure_topics valid_id
               (if HasElement (sdf_namespace sdf) then Get_string (sdf_namespace sdf)
                else nameOf ecm_example 5) ''propeller_joint''
               ((Configure_params valid_id sdf (s0\<lparr>modelEntity := 5\<rparr>))
                  \<lparr>jointEntity := jointByName ecm_example 5 ''propeller_joint'',
                   jointAxis := Vector3d (Fin 1) (Fin 0) (Fin 0),
                   jointPose := pose_id,
                   linkEntity := linkByName ecm_example 5 ''propeller''\<rparr>))),
          ecm_example\<lparr>angularVelocity :=
                 enableComponent (angularVelocity ecm_example) (linkByName ecm_example 5 ''propeller''),
              worldAngularVelocity :=
                 enableComponent (worldAngularVelocity ecm_example) (linkByName ecm_example 5 ''propeller''),
              worldLinearVelocity :=
                 enableComponent (worldLinearVelocity ecm_example) (linkByName ecm_example 5 ''propeller'')\<rparr>)"
    by (rule Configure_complete [OF assms]) (simp_all add: j kNullEntity_def, simp_all add: ecm_example_def)
  moreover have "linkByName ecm_example 5 ''propeller'' = 6" "nameOf ecm_example 5 = ''sub''"
    by (simp_all add: ecm_example_def)
  moreover have "enableComponent (angularVelocity ecm_example) 6 = [6 \<mapsto> Vector3d (Fin 0) (Fin 0) (Fin 0)]"
    "enableComponent (worldAngularVelocity ecm_example) 6 = [6 \<mapsto> Vector3d (Fin 0) (Fin 0) (Fin 0)]"
    "enableComponent (worldLinearVelocity ecm_example) 6 = [6 \<mapsto> Vector3d (Fin 0) (Fin 0) (Fin 0)]"
    by (simp_all add: ecm_example_def enableComponent_def)
  ultimately show ?thesis
    by (simp add: j ecm_configured_def)
qed


lemma Configure_params_none:
  assumes "sdf_thrust_coefficient sdf = None" "sdf_propeller_diameter sdf = None"
    "sdf_fluid_density sdf = None" "sdf_use_angvel_cmd sdf = None" "sdf_wake_fraction sdf = None"
    "sdf_alpha_1 sdf = None" "sdf_alpha_2 sdf = None" "sdf_topic sdf = None"
  shows "Configure_params valid sdf s = s"
  by (simp add: Configure_params_def assms HasElement_def)

lemma Configure_topics_default:
  assumes "topic s = []" "opmode s = ForceCmd"
  shows "Configure_topics valid_id ns jn s =
     s\<lparr>subscriptions := subscriptions s @
            [(''/model/'' @ ns @ ''/joint/'' @ jn @ ''/cmd_thrust'', CbOnCmdThrust)],
       pub := Some (''/model/'' @ ns @ ''/joint/'' @ jn @ ''/ang_vel'')\<rparr>"
  by (simp add: Configure_topics_def assms valid_id_def)

lemma Configure_example:
  "Configure valid_id 5 sdf_example ecm_example (Thruster_init 0 0 0) =
     Inr (thruster_example, ecm_configured)"
proof -
  let ?s1 = "(Thruster_init 0 0 0)\<lparr>modelEntity := 5, jointEntity := 7,
        jointAxis := Vector3d (Fin 1) (Fin 0) (Fin 0), jointPose := pose_id, linkEntity := 6\<rparr>"
  let ?s2 = "?s1\<lparr>subscriptions := [(''/model/sub/joint/propeller_joint/cmd_thrust'', CbOnCmdThrust)],
              pub := Some ''/model/sub/joint/propeller_joint/ang_vel''\<rparr>"
  have p: "Configure_params valid_id sdf_example s = s" for s
    by (rule Configure_params_none) (simp_all add: sdf_example_def sdf_empty_def)
  have t: "Configure_topics valid_id ''sub'' ''propeller_joint'' ?s1 = ?s2"
    by (subst Configure_topics_default) (simp_all add: Thruster_init_def)
  have b: "Configure_bounds sdf_example s = s" for s
    by (rule Configure_bounds_default) (simp_all add: sdf_example_def sdf_empty_def)
  have q: "thrustCoefficientSet ?s2 \<or> \<not> dgt (dabs (propellerAngVel ?s2)) epsilon"
    by (simp add: Thruster_init_def dgt_def epsilon_def)
  have "Configure_pid sdf_example ?s2 = thruster_example"
    unfolding Configure_pid_quiet [OF q]
    by (simp add: sdf_example_def sdf_empty_def Let_def thruster_example_def pose_id_def
        T2A_init_1000 Thruster_init_def dgt_def epsilon_def)
  moreover have "Configure valid_id 5 sdf_example ecm_example (Thruster_init 0 0 0) =
      Inr (Configure_pid sdf_example ?s2, ecm_configured)"
    by (subst Configure_example_gen)
       (simp_all add: p b t, simp_all add: sdf_example_def sdf_empty_def HasElement_def)
  ultimately show ?thesis by simp
qed

text \<open>
  With \<open><i_gain>3</i_gain>\<close> and \<open><d_gain>4</d_gain>\<close> the result is that of the
  element without them, and both gains are 0.
\<close>

theorem C9_gains_not_applied_witness:
  "Configure valid_id 5 (sdf_example\<lparr>sdf_i_gain := Some (Fin 3), sdf_d_gain := Some (Fin 4)\<rparr>)
     ecm_example (Thruster_init 0 0 0) = Inr (thruster_example, ecm_configured) \<and>
   IGain (propellerController thruster_example) = Fin 0 \<and>
   DGain (propellerController thruster_example) = Fin 0 \<and>
   PGain (propellerController thruster_example) = Fin (1 / 10)"
proof -
  have "sdf_joint_name sdf_example \<noteq> None"
    "jointByName ecm_example 5 (Get_string (sdf_joint_name sdf_example)) \<noteq> kNullEntity"
    "\<not> velocityControl thruster_example"
    "sdf_p_gain sdf_example = None"
    by (simp_all add: sdf_example_def sdf_empty_def Get_string_def ecm_example_def
        kNullEntity_def thruster_example_def Thruster_init_def)
  then show ?thesis
    using C9_gains_not_applied [OF Configure_example, where gi = "Some (Fin 3)" and gd = "Some (Fin 4)"]
    by simp
qed

subsection \<open>The scenario of 100 N\<close>

lemma sqrt_625000_bounds: "79056 / 100 < sqrt 625000" "sqrt 625000 < 79057 / 100"
  by (rule real_less_rsqrt, simp add: power2_eq_square)
     (rule real_less_lsqrt, simp_all add: power2_eq_square)

lemma OnCmdThrust_100:
  assumes "\<not> thrustCoefficientSet s" "thrustCoefficient s = Fin 1" "fluidDensity s = Fin 1000"
    "propellerDiameter s = Fin (2 / 100)" "propellerAngVel s = Fin 0"
    "cmdMax s = Fin 1000" "cmdMin s = Fin (- 1000)"
  shows "thrust (OnCmdThrust s (Fin 100)) = Fin 100"
    and "propellerAngVel (OnCmdThrust s (Fin 100)) = Fin (sqrt (100 / (1000 * 1 * (2 / 100) ^ 4)))"
proof -
  have c: "clamp (fixnan (Fin 100)) (cmdMin s) (cmdMax s) = Fin 100"
    by (simp add: assms clamp_def fixnan_def dmin_def dmax_def)
  show "thrust (OnCmdThrust s (Fin 100)) = Fin 100"
    by (simp add: thrust_OnCmdThrust c)
  let ?s1 = "s\<lparr>thrust := Fin 100\<rparr>"
  have q: "thrustCoefficientSet ?s1 \<or> \<not> dgt (dabs (propellerAngVel ?s1)) epsilon"
    by (simp add: assms dgt_def epsilon_def)
  have s1: "snd (ThrustToAngularVec ?s1 (Fin 100)) = ?s1"
    using q by (rule T2A_fixed)
  have "fst (ThrustToAngularVec ?s1 (Fin 100)) =
          dmul (dsqrt (dabs (ddiv (Fin 100)
                  (dmul (dmul (Fin 1000) (Fin 1)) (dpow (Fin (2 / 100)) 4)))))
               (if dgt (dmul (Fin 100) (Fin 1)) (Fin 0) then Fin 1 else Fin (- 1))"
    by (rule T2A_fst_Fin) (simp_all add: s1 assms)
  also have "\<dots> = Fin (sqrt \<bar>100 / (1000 * 1 * (2 / 100) ^ 4)\<bar>)"
    by (rule conv_Fin_pos) simp_all
  finally have "fst (ThrustToAngularVec ?s1 (Fin 100)) = Fin (sqrt (100 / (1000 * 1 * (2 / 100) ^ 4)))"
    by simp
  then show "propellerAngVel (OnCmdThrust s (Fin 100)) = Fin (sqrt (100 / (1000 * 1 * (2 / 100) ^ 4)))"
    by (simp add: OnCmdThrust_def Let_def case_prod_beta c)
qed

lemma Configure_scenario_fields:
  assumes "Configure valid entity sdf ecm (Thruster_init m l j) = Inr (s, ecm')"
    and "sdf_thrust_coefficient sdf = None"
    and "sdf_fluid_density sdf = Some (Fin 1000)"
    and "sdf_propeller_diameter sdf = Some (Fin (2 / 100))"
    and "sdf_max_thrust_cmd sdf = None" and "sdf_min_thrust_cmd sdf = None"
  shows "\<not> thrustCoefficientSet s \<and> thrustCoefficient s = Fin 1 \<and> fluidDensity s = Fin 1000 \<and>
         propellerDiameter s = Fin (2 / 100) \<and> propellerAngVel s = Fin 0 \<and>
         cmdMax s = Fin 1000 \<and> cmdMin s = Fin (- 1000)"
  using assms(1)
proof (cases rule: Configure_cases)
  case no_joint_name
  then show ?thesis by (simp add: Thruster_init_def)
next
  case no_joint
  then show ?thesis
    by (simp add: Configure_params_fields assms(2-4)) (simp add: Thruster_init_def)
next
  case (complete axis pose childLink ns)
  let ?p = "Configure_params valid sdf ((Thruster_init m l j)\<lparr>modelEntity := entity\<rparr>)"
  let ?t = "Configure_topics valid ns (Get_string (sdf_joint_name sdf))
              (?p\<lparr>jointEntity := jointByName ecm entity (Get_string (sdf_joint_name sdf)),
                  jointAxis := axis, jointPose := pose,
                  linkEntity := linkByName ecm entity childLink\<rparr>)"
  have f: "\<not> thrustCoefficientSet ?p" "thrustCoefficient ?p = Fin 1" "fluidDensity ?p = Fin 1000"
    "propellerDiameter ?p = Fin (2 / 100)" "propellerAngVel ?p = Fin 0"
    "cmdMax ?p = Fin 1000" "cmdMin ?p = Fin (- 1000)"
    by (simp_all add: Configure_params_fields assms(2-4)) (simp_all add: Thruster_init_def)
  have g: "\<not> thrustCoefficientSet ?t" "thrustCoefficient ?t = Fin 1" "fluidDensity ?t = Fin 1000"
    "propellerDiameter ?t = Fin (2 / 100)" "propellerAngVel ?t = Fin 0"
    "cmdMax ?t = Fin 1000" "cmdMin ?t = Fin (- 1000)"
    by (subst Configure_topics_eq, simp add: f)+
  have q: "thrustCoefficientSet ?t \<or> \<not> dgt (dabs (propellerAngVel ?t)) epsilon"
    by (simp add: g dgt_def epsilon_def)
  have s: "s = Configure_pid sdf ?t"
    unfolding complete(3) Configure_bounds_default [OF assms(5,6)] ..
  show ?thesis
    unfolding s Configure_pid_quiet [OF q] by (simp add: Let_def g)
qed

text \<open>
  Claim C8, as amended. After \<open>Configure\<close> with \<open>thrust_coefficient\<close> unset,
  \<open>alpha_1 = 1\<close>, \<open>alpha_2 = 0\<close>, \<open>fluid_density = 1000\<close>,
  \<open>propeller_diameter = 0.02\<close> and the default command bounds, a thrust command of 100 N
  stores 100 and derives the propeller angular velocity
  \<open>sqrt(100 / (1000 * 1 * 0.02^4))\<close>, which is \<open>sqrt(625000)\<close>, between 790.56 and
  790.57 rad/s, and positive.
\<close>

theorem C8_scenario:
  assumes "Configure valid entity sdf ecm (Thruster_init m l j) = Inr (s, ecm')"
    and "sdf_thrust_coefficient sdf = None"
    and "sdf_alpha_1 sdf = Some (Fin 1)" and "sdf_alpha_2 sdf = Some (Fin 0)"
    and "sdf_fluid_density sdf = Some (Fin 1000)"
    and "sdf_propeller_diameter sdf = Some (Fin (2 / 100))"
    and "sdf_max_thrust_cmd sdf = None" and "sdf_min_thrust_cmd sdf = None"
  shows "thrust (OnCmdThrust s (Fin 100)) = Fin 100 \<and>
         propellerAngVel (OnCmdThrust s (Fin 100)) = Fin (sqrt (100 / (1000 * 1 * (2 / 100) ^ 4))) \<and>
         sqrt (100 / (1000 * 1 * (2 / 100) ^ 4)) = sqrt 625000 \<and>
         79056 / 100 < sqrt 625000 \<and> sqrt 625000 < 79057 / 100 \<and>
         dgt (propellerAngVel (OnCmdThrust s (Fin 100))) (Fin 0)"
proof -
  have f: "\<not> thrustCoefficientSet s \<and> thrustCoefficient s = Fin 1 \<and> fluidDensity s = Fin 1000 \<and>
         propellerDiameter s = Fin (2 / 100) \<and> propellerAngVel s = Fin 0 \<and>
         cmdMax s = Fin 1000 \<and> cmdMin s = Fin (- 1000)"
    using assms(1,2,5-8) by (rule Configure_scenario_fields)
  have a: "thrust (OnCmdThrust s (Fin 100)) = Fin 100"
    by (rule OnCmdThrust_100(1)) (simp_all add: f)
  have b: "propellerAngVel (OnCmdThrust s (Fin 100)) = Fin (sqrt (100 / (1000 * 1 * (2 / 100) ^ 4)))"
    by (rule OnCmdThrust_100(2)) (simp_all add: f)
  have c: "(100::real) / (1000 * 1 * (2 / 100) ^ 4) = 625000"
    by (simp add: power4_eq_xxxx)
  show ?thesis
    using sqrt_625000_bounds unfolding a b c by (simp add: dgt_def)
qed

lemma Configure_example_scenario:
  "Configure valid_id 5
     (sdf_example\<lparr>sdf_alpha_1 := Some (Fin 1), sdf_alpha_2 := Some (Fin 0),
                  sdf_fluid_density := Some (Fin 1000),
                  sdf_propeller_diameter := Some (Fin (2 / 100))\<rparr>)
     ecm_example (Thruster_init 0 0 0) = Inr (thruster_example, ecm_configured)"
proof -
  let ?sdf = "sdf_example\<lparr>sdf_alpha_1 := Some (Fin 1), sdf_alpha_2 := Some (Fin 0),
                  sdf_fluid_density := Some (Fin 1000),
                  sdf_propeller_diameter := Some (Fin (2 / 100))\<rparr>"
  let ?s0 = "(Thruster_init 0 0 0)\<lparr>modelEntity := 5\<rparr>"
  have j: "sdf_joint_name ?sdf = Some ''propeller_joint''"
    "sdf_joint_name sdf_example = Some ''propeller_joint''"
    by (simp_all add: sdf_example_def)
  have n: "sdf_namespace ?sdf = sdf_namespace sdf_example"
    by simp
  have p: "Configure_params valid_id ?sdf ?s0 = Configure_params valid_id sdf_example ?s0"
    by (simp add: Configure_params_def sdf_example_def sdf_empty_def HasElement_def
        Get_double_def Thruster_init_def)
  have b: "Configure_bounds ?sdf = Configure_bounds sdf_example"
    by (simp add: Configure_bounds_def fun_eq_iff)
  have c: "Configure_pid ?sdf = Configure_pid sdf_example"
    by (simp add: Configure_pid_alt fun_eq_iff Let_def)
  have "Configure valid_id 5 ?sdf ecm_example (Thruster_init 0 0 0) =
        Configure valid_id 5 sdf_example ecm_example (Thruster_init 0 0 0)"
    by (simp only: Configure_example_gen [OF j(1)] Configure_example_gen [OF j(2)] n p b c)
  then show ?thesis
    by (simp only: Configure_example)
qed

text \<open>
  The claim as stated gives the value as approximately 55.9 rad/s. In the scenario the
  derived velocity is \<open>sqrt(625000)\<close>, more than 734 away from 55.9.
\<close>

theorem C8_counterexample:
  "Configure valid_id 5
     (sdf_example\<lparr>sdf_alpha_1 := Some (Fin 1), sdf_alpha_2 := Some (Fin 0),
                  sdf_fluid_density := Some (Fin 1000),
                  sdf_propeller_diameter := Some (Fin (2 / 100))\<rparr>)
     ecm_example (Thruster_init 0 0 0) = Inr (thruster_example, ecm_configured) \<and>
   propellerAngVel (OnCmdThrust thruster_example (Fin 100)) = Fin (sqrt 625000) \<and>
   734 < \<bar>sqrt 625000 - 559 / 10\<bar>"
proof -
  have "propellerAngVel (OnCmdThrust thruster_example (Fin 100))
          = Fin (sqrt (100 / (1000 * 1 * (2 / 100) ^ 4)))"
    by (rule OnCmdThrust_100(2)) (simp_all add: thruster_example_def Thruster_init_def)
  moreover have "(100::real) / (1000 * 1 * (2 / 100) ^ 4) = 625000"
    by (simp add: power4_eq_xxxx)
  ultimately have "propellerAngVel (OnCmdThrust thruster_example (Fin 100)) = Fin (sqrt 625000)"
    by simp
  moreover have "734 < \<bar>sqrt 625000 - 559 / 10\<bar>"
    using sqrt_625000_bounds(1) by simp
  ultimately show ?thesis
    using Configure_example_scenario by (intro conjI)
qed

text \<open>The amended claim in the configuration of the example.\<close>

theorem C8_scenario_witness:
  "propellerAngVel (OnCmdThrust thruster_example (Fin 100)) = Fin (sqrt 625000) \<and>
   79056 / 100 < sqrt 625000 \<and> sqrt 625000 < 79057 / 100"
proof -
  let ?sdf = "sdf_example\<lparr>sdf_alpha_1 := Some (Fin 1), sdf_alpha_2 := Some (Fin 0),
                  sdf_fluid_density := Some (Fin 1000),
                  sdf_propeller_diameter := Some (Fin (2 / 100))\<rparr>"
  have "thrust (OnCmdThrust thruster_example (Fin 100)) = Fin 100 \<and>
         propellerAngVel (OnCmdThrust thruster_example (Fin 100))
           = Fin (sqrt (100 / (1000 * 1 * (2 / 100) ^ 4))) \<and>
         sqrt (100 / (1000 * 1 * (2 / 100) ^ 4)) = sqrt 625000 \<and>
         79056 / 100 < sqrt 625000 \<and> sqrt 625000 < 79057 / 100 \<and>
         dgt (propellerAngVel (OnCmdThrust thruster_example (Fin 100))) (Fin 0)"
    by (rule C8_scenario [OF Configure_example_scenario])
       (simp_all add: sdf_example_def sdf_empty_def)
  then show ?thesis
    by (elim conjE) (simp only: simp_thms)
qed

section \<open>Properties of the control step\<close>

text \<open>
  What \<open>PreUpdate\<close> returns on an enabled, unpaused step, in each control mode, and the
  only ways it can fail: a missing \<open>WorldAngularVelocity\<close> or \<open>WorldLinearVelocity\<close>
  component (a null pointer is dereferenced) and an empty \<open>JointVelocityCmd\<close> vector (its
  element 0 is written).
\<close>

lemma T2A_frame_more:
  "linkEntity (snd (ThrustToAngularVec s t)) = linkEntity s"
  "jointEntity (snd (ThrustToAngularVec s t)) = jointEntity s"
  "opmode (snd (ThrustToAngularVec s t)) = opmode s"
  "pub (snd (ThrustToAngularVec s t)) = pub s"
  "thrust (snd (ThrustToAngularVec s t)) = thrust s"
  "enabled (snd (ThrustToAngularVec s t)) = enabled s"
  by (subst snd_T2A_eq, simp)+

lemma control_pid:
  assumes "\<not> velocityControl s" and "worldAngularVelocity ecm (linkEntity s) = Some av"
  shows "PreUpdate_control info u w ecm s =
     Inr (if dgt (dabs (dsub (Dot av u) w)) (Fin (1 / 10))
          then fst (PID_Update (propellerController s) (dsub (Dot av u) w) (dt_seconds info))
          else Fin 0,
          Dot av u, ecm,
          s\<lparr>propellerController :=
               if dgt (dabs (dsub (Dot av u) w)) (Fin (1 / 10))
               then snd (PID_Update (propellerController s) (dsub (Dot av u) w) (dt_seconds info))
               else propellerController s\<rparr>)"
  using assms by (simp add: PreUpdate_control_def Let_def case_prod_beta)


lemma control_velocity:
  assumes "velocityControl s" and "jointVelocityCmd ecm (jointEntity s) \<noteq> Some []"
  shows "PreUpdate_control info u w ecm s =
     Inr (Fin 0, w,
          ecm\<lparr>jointVelocityCmd := (jointVelocityCmd ecm)(jointEntity s \<mapsto>
                 w # (case jointVelocityCmd ecm (jointEntity s) of None \<Rightarrow> [] | Some vs \<Rightarrow> tl vs))\<rparr>,
          s)"
  using assms by (simp add: PreUpdate_control_def split: option.split list.split)


lemma PreUpdate_idle:
  "paused info \<or> \<not> enabled s \<Longrightarrow> PreUpdate rot info ecm s = Inr (s, ecm, [])"
  by (auto simp add: PreUpdate_def)

lemma PreUpdate_after_control:
  assumes "\<not> paused info" and "enabled s"
    and "PreUpdate_control info (rot (worldPoseOf ecm (linkEntity s)) (jointPose s) (jointAxis s))
            (fst (ThrustToAngularVec s (thrust s))) ecm
            ((snd (ThrustToAngularVec s (thrust s)))
               \<lparr>propellerAngVel := fst (ThrustToAngularVec s (thrust s))\<rparr>)
         = Inr (torque, angvel, ecm1, s3)"
    and "worldLinearVelocity ecm1 (linkEntity s3) = Some lv"
  shows "PreUpdate rot info ecm s =
     Inr (s3\<lparr>linearVelocity := Length lv\<rparr>,
          ecm1\<lparr>worldWrenches := worldWrenches ecm1 @
             [(linkEntity s3,
               vec_scale (rot (worldPoseOf ecm (linkEntity s)) (jointPose s) (jointAxis s)) (thrust s),
               vec_scale (rot (worldPoseOf ecm (linkEntity s)) (jointPose s) (jointAxis s)) torque)]\<rparr>,
          [(pub s3, if opmode s3 = ForceCmd then angvel else thrust s)])"
  using assms by (simp add: PreUpdate_def Let_def case_prod_beta)


lemma PreUpdate_pid:
  fixes rot :: "Pose3d \<Rightarrow> Pose3d \<Rightarrow> Vector3d \<Rightarrow> Vector3d"
  assumes "\<not> paused info" and "enabled s" and "\<not> velocityControl s"
    and "worldAngularVelocity ecm (linkEntity s) = Some av"
    and "worldLinearVelocity ecm (linkEntity s) = Some lv"
  defines "u \<equiv> rot (worldPoseOf ecm (linkEntity s)) (jointPose s) (jointAxis s)"
    and "w \<equiv> fst (ThrustToAngularVec s (thrust s))"
  defines "e \<equiv> dsub (Dot av u) w"
  shows "PreUpdate rot info ecm s =
    Inr ((snd (ThrustToAngularVec s (thrust s)))
           \<lparr>propellerAngVel := w,
            propellerController :=
              if dgt (dabs e) (Fin (1 / 10))
              then snd (PID_Update (propellerController s) e (dt_seconds info))
              else propellerController s,
            linearVelocity := Length lv\<rparr>,
         ecm\<lparr>worldWrenches := worldWrenches ecm @
               [(linkEntity s, vec_scale u (thrust s),
                 vec_scale u (if dgt (dabs e) (Fin (1 / 10))
                              then fst (PID_Update (propellerController s) e (dt_seconds info))
                              else Fin 0))]\<rparr>,
         [(pub s, if opmode s = ForceCmd then Dot av u else thrust s)])"
proof -
  let ?s2 = "(snd (ThrustToAngularVec s (thrust s)))\<lparr>propellerAngVel := w\<rparr>"
  have f: "\<not> velocityControl ?s2" "linkEntity ?s2 = linkEntity s" "pub ?s2 = pub s"
    "opmode ?s2 = opmode s" "propellerController ?s2 = propellerController s"
    using assms(3) by (simp_all add: T2A_keeps T2A_frame_more)
  have c: "PreUpdate_control info u w ecm ?s2 =
     Inr (if dgt (dabs e) (Fin (1 / 10))
          then fst (PID_Update (propellerController s) e (dt_seconds info)) else Fin 0,
          Dot av u, ecm,
          ?s2\<lparr>propellerController :=
               if dgt (dabs e) (Fin (1 / 10))
               then snd (PID_Update (propellerController s) e (dt_seconds info))
               else propellerController s\<rparr>)"
    unfolding e_def using control_pid [of ?s2 ecm av info u w] f assms(4) by simp
  show ?thesis
    using PreUpdate_after_control [where rot = rot and lv = lv, OF assms(1,2) c [unfolded u_def w_def]]
    by (simp add: f assms(5) u_def w_def T2A_keeps T2A_frame_more)
qed

lemma PreUpdate_velocity:
  fixes rot :: "Pose3d \<Rightarrow> Pose3d \<Rightarrow> Vector3d \<Rightarrow> Vector3d"
  assumes "\<not> paused info" and "enabled s" and "velocityControl s"
    and "jointVelocityCmd ecm (jointEntity s) \<noteq> Some []"
    and "worldLinearVelocity ecm (linkEntity s) = Some lv"
  defines "u \<equiv> rot (worldPoseOf ecm (linkEntity s)) (jointPose s) (jointAxis s)"
    and "w \<equiv> fst (ThrustToAngularVec s (thrust s))"
  shows "PreUpdate rot info ecm s =
    Inr ((snd (ThrustToAngularVec s (thrust s)))
           \<lparr>propellerAngVel := w, linearVelocity := Length lv\<rparr>,
         ecm\<lparr>jointVelocityCmd := (jointVelocityCmd ecm)(jointEntity s \<mapsto>
                 w # (case jointVelocityCmd ecm (jointEntity s) of None \<Rightarrow> [] | Some vs \<Rightarrow> tl vs)),
             worldWrenches := worldWrenches ecm @
               [(linkEntity s, vec_scale u (thrust s), vec_scale u (Fin 0))]\<rparr>,
         [(pub s, if opmode s = ForceCmd then w else thrust s)])"
proof -
  let ?s2 = "(snd (ThrustToAngularVec s (thrust s)))\<lparr>propellerAngVel := w\<rparr>"
  have f: "velocityControl ?s2" "linkEntity ?s2 = linkEntity s" "pub ?s2 = pub s"
    "opmode ?s2 = opmode s" "jointEntity ?s2 = jointEntity s"
    using assms(3) by (simp_all add: T2A_keeps T2A_frame_more)
  have c: "PreUpdate_control info u w ecm ?s2 =
     Inr (Fin 0, w,
          ecm\<lparr>jointVelocityCmd := (jointVelocityCmd ecm)(jointEntity s \<mapsto>
                 w # (case jointVelocityCmd ecm (jointEntity s) of None \<Rightarrow> [] | Some vs \<Rightarrow> tl vs))\<rparr>,
          ?s2)"
    using control_velocity [of ?s2 ecm info u w] f assms(4) by simp
  show ?thesis
    using PreUpdate_after_control [where rot = rot and lv = lv, OF assms(1,2) c [unfolded u_def w_def]]
    by (simp add: f assms(5) u_def w_def T2A_keeps T2A_frame_more)
qed













lemma example_fields:
  "enabled thruster_example" "\<not> velocityControl thruster_example"
  "linkEntity thruster_example = 6" "jointEntity thruster_example = 7"
  "jointAxis thruster_example = Vector3d (Fin 1) (Fin 0) (Fin 0)"
  "thrust thruster_example = Fin 0" "opmode thruster_example = ForceCmd"
  "pub thruster_example = Some ''/model/sub/joint/propeller_joint/ang_vel''"
  "propellerController thruster_example =
     PID_Init (Fin (1 / 10)) (Fin 0) (Fin 0) (Fin 1) (Fin (- 1)) (Fin 2500) (Fin (- 2500)) (Fin 0)"
  "modelEntity thruster_example = 5"
  by (simp_all add: thruster_example_def Thruster_init_def)








section \<open>The battery gate between steps\<close>

lemma PreUpdate_executes:
  fixes rot :: "Pose3d \<Rightarrow> Pose3d \<Rightarrow> Vector3d \<Rightarrow> Vector3d"
  assumes "enabled s" and "\<not> paused info"
    and "worldLinearVelocity ecm (linkEntity s) \<noteq> None"
    and "if velocityControl s then jointVelocityCmd ecm (jointEntity s) \<noteq> Some []
         else worldAngularVelocity ecm (linkEntity s) \<noteq> None"
  shows "\<exists>s' ecm' m w. PreUpdate rot info ecm s = Inr (s', ecm', [m]) \<and>
           worldWrenches ecm' = worldWrenches ecm @ [w] \<and> enabled s'"
proof (cases "velocityControl s")
  case True
  from assms(3) obtain lv where lv: "worldLinearVelocity ecm (linkEntity s) = Some lv" by auto
  from assms(4) True have j: "jointVelocityCmd ecm (jointEntity s) \<noteq> Some []" by simp
  show ?thesis
    unfolding PreUpdate_velocity [OF assms(2) assms(1) True j lv, where rot = rot]
    using assms(1) by (simp add: T2A_frame_more)
next
  case False
  from assms(3) obtain lv where lv: "worldLinearVelocity ecm (linkEntity s) = Some lv" by auto
  from assms(4) False obtain av where av: "worldAngularVelocity ecm (linkEntity s) = Some av"
    by auto
  show ?thesis
    unfolding PreUpdate_pid [OF assms(2) assms(1) False av lv, where rot = rot]
    using assms(1) by (simp add: T2A_frame_more)
qed

lemma dgt_not_dle: "dgt a b \<Longrightarrow> \<not> dle a b"
  by (cases a; cases b; simp add: dgt_def dle_def)

lemma HasSufficientBattery_PostUpdate:
  "HasSufficientBattery (PostUpdate ecmp s) ecmq = HasSufficientBattery s ecmq"
  by (simp add: HasSufficientBattery_iff PostUpdate_def)

text \<open>
  Claim C7. \<open>PostUpdate\<close> stores the battery gate's verdict in \<open>enabled\<close> and nothing
  else, and the verdict does not depend on the value \<open>enabled\<close> had: a reading of the
  model at or below zero disables, readings of the model all above zero enable again
  without any other action. The flag is only read at the start of \<open>PreUpdate\<close>: a step
  that starts enabled (unpaused, the components it reads present) completes, applies its
  wrench and publishes its message whatever the charge, and leaves \<open>enabled\<close> as it
  was; a step that starts after \<open>PostUpdate\<close> has disabled the system changes neither the
  state nor the component manager (no wrench, no joint command) and publishes nothing;
  and the step after \<open>PostUpdate\<close> has enabled it again executes.
\<close>

theorem C7_battery_gating:
  fixes rot :: "Pose3d \<Rightarrow> Pose3d \<Rightarrow> Vector3d \<Rightarrow> Vector3d"
  shows
  "PostUpdate ecmp s = s\<lparr>enabled := HasSufficientBattery s ecmp\<rparr> \<and>
   HasSufficientBattery (PostUpdate ecmp s) ecmq = HasSufficientBattery s ecmq \<and>
   ((\<exists>ed \<in> set (batterySoC ecmp).
        parentEntity ecmp (fst ed) = modelEntity s \<and> dle (snd ed) (Fin 0))
      \<longrightarrow> \<not> enabled (PostUpdate ecmp s)) \<and>
   ((\<forall>ed \<in> set (batterySoC ecmp).
        parentEntity ecmp (fst ed) = modelEntity s \<longrightarrow> dgt (snd ed) (Fin 0))
      \<longrightarrow> enabled (PostUpdate ecmp s)) \<and>
   (enabled s \<and> \<not> paused info \<and> worldLinearVelocity ecm (linkEntity s) \<noteq> None \<and>
    (if velocityControl s then jointVelocityCmd ecm (jointEntity s) \<noteq> Some []
     else worldAngularVelocity ecm (linkEntity s) \<noteq> None)
      \<longrightarrow> (\<exists>s' ecm' m w. PreUpdate rot info ecm s = Inr (s', ecm', [m]) \<and>
             worldWrenches ecm' = worldWrenches ecm @ [w] \<and> enabled s')) \<and>
   (\<not> enabled (PostUpdate ecmp s)
      \<longrightarrow> PreUpdate rot info ecm (PostUpdate ecmp s) = Inr (PostUpdate ecmp s, ecm, [])) \<and>
   (enabled (PostUpdate ecmp s) \<and> \<not> paused info \<and>
    worldLinearVelocity ecm (linkEntity s) \<noteq> None \<and>
    (if velocityControl s then jointVelocityCmd ecm (jointEntity s) \<noteq> Some []
     else worldAngularVelocity ecm (linkEntity s) \<noteq> None)
      \<longrightarrow> (\<exists>s' ecm' m w. PreUpdate rot info ecm (PostUpdate ecmp s) = Inr (s', ecm', [m]) \<and>
             worldWrenches ecm' = worldWrenches ecm @ [w]))"
proof -
  have a: "(\<exists>ed \<in> set (batterySoC ecmp).
        parentEntity ecmp (fst ed) = modelEntity s \<and> dle (snd ed) (Fin 0))
      \<longrightarrow> \<not> enabled (PostUpdate ecmp s)"
    by (auto simp add: PostUpdate_def HasSufficientBattery_iff)
  have b: "(\<forall>ed \<in> set (batterySoC ecmp).
        parentEntity ecmp (fst ed) = modelEntity s \<longrightarrow> dgt (snd ed) (Fin 0))
      \<longrightarrow> enabled (PostUpdate ecmp s)"
    by (auto simp add: PostUpdate_def HasSufficientBattery_iff dest: dgt_not_dle)
  have c: "enabled s \<and> \<not> paused info \<and> worldLinearVelocity ecm (linkEntity s) \<noteq> None \<and>
    (if velocityControl s then jointVelocityCmd ecm (jointEntity s) \<noteq> Some []
     else worldAngularVelocity ecm (linkEntity s) \<noteq> None)
      \<longrightarrow> (\<exists>s' ecm' m w. PreUpdate rot info ecm s = Inr (s', ecm', [m]) \<and>
             worldWrenches ecm' = worldWrenches ecm @ [w] \<and> enabled s')"
    using PreUpdate_executes [of s info ecm rot] by blast
  have d: "\<not> enabled (PostUpdate ecmp s)
      \<longrightarrow> PreUpdate rot info ecm (PostUpdate ecmp s) = Inr (PostUpdate ecmp s, ecm, [])"
    by (simp add: PreUpdate_idle)
  have f: "linkEntity (PostUpdate ecmp s) = linkEntity s"
    "jointEntity (PostUpdate ecmp s) = jointEntity s"
    "velocityControl (PostUpdate ecmp s) = velocityControl s"
    by (simp_all add: PostUpdate_def)
  have e: "enabled (PostUpdate ecmp s) \<and> \<not> paused info \<and>
    worldLinearVelocity ecm (linkEntity s) \<noteq> None \<and>
    (if velocityControl s then jointVelocityCmd ecm (jointEntity s) \<noteq> Some []
     else worldAngularVelocity ecm (linkEntity s) \<noteq> None)
      \<longrightarrow> (\<exists>s' ecm' m w. PreUpdate rot info ecm (PostUpdate ecmp s) = Inr (s', ecm', [m]) \<and>
             worldWrenches ecm' = worldWrenches ecm @ [w])"
    using PreUpdate_executes [of "PostUpdate ecmp s" info ecm rot] unfolding f by blast
  show ?thesis
    using a b c d e by (simp add: HasSufficientBattery_PostUpdate) (simp add: PostUpdate_def)
qed

text \<open>
  A step with the battery full completes; \<open>PostUpdate\<close> then sees the model's battery
  (entity 8) at zero and disables; the next step does nothing; \<open>PostUpdate\<close> sees the
  battery at one half and enables; the step after that executes.
\<close>

theorem C7_battery_gating_witness:
  "(\<exists>s' ecm' m w.
      PreUpdate rot_id info_example ecm_configured thruster_example = Inr (s', ecm', [m]) \<and>
      worldWrenches ecm' = [w] \<and> enabled s') \<and>
   \<not> enabled (PostUpdate (ecm_configured\<lparr>batterySoC := [(8, Fin 0)]\<rparr>) thruster_example) \<and>
   PreUpdate rot_id info_example ecm_configured
     (PostUpdate (ecm_configured\<lparr>batterySoC := [(8, Fin 0)]\<rparr>) thruster_example)
     = Inr (PostUpdate (ecm_configured\<lparr>batterySoC := [(8, Fin 0)]\<rparr>) thruster_example,
            ecm_configured, []) \<and>
   enabled (PostUpdate (ecm_configured\<lparr>batterySoC := [(8, Fin (1 / 2))]\<rparr>)
              (PostUpdate (ecm_configured\<lparr>batterySoC := [(8, Fin 0)]\<rparr>) thruster_example)) \<and>
   (\<exists>s' ecm' m w.
      PreUpdate rot_id info_example ecm_configured
        (PostUpdate (ecm_configured\<lparr>batterySoC := [(8, Fin (1 / 2))]\<rparr>)
           (PostUpdate (ecm_configured\<lparr>batterySoC := [(8, Fin 0)]\<rparr>) thruster_example))
        = Inr (s', ecm', [m]) \<and>
      worldWrenches ecm' = [w])"
proof -
  let ?low = "ecm_configured\<lparr>batterySoC := [(8, Fin 0)]\<rparr>"
  let ?high = "ecm_configured\<lparr>batterySoC := [(8, Fin (1 / 2))]\<rparr>"
  let ?s = "thruster_example"
  let ?off = "PostUpdate ?low ?s"
  have f: "modelEntity ?off = 5" "linkEntity ?off = 6" "velocityControl ?off = False"
    by (simp_all add: PostUpdate_def example_fields)
  have ww: "worldWrenches ecm_configured = []"
    by (simp add: ecm_configured_def ecm_example_def)
  have comps: "worldLinearVelocity ecm_configured 6 \<noteq> None"
    "worldAngularVelocity ecm_configured 6 \<noteq> None"
    by (simp_all add: ecm_configured_def)
  have np: "\<not> paused info_example" by (simp add: info_example_def)
  have h1: "\<exists>ed \<in> set (batterySoC ?low).
      parentEntity ?low (fst ed) = modelEntity ?s \<and> dle (snd ed) (Fin 0)"
    by (simp add: ecm_configured_def ecm_example_def example_fields dle_def)
  have h2: "\<forall>ed \<in> set (batterySoC ?high).
      parentEntity ?high (fst ed) = modelEntity ?off \<longrightarrow> dgt (snd ed) (Fin 0)"
    by (simp add: dgt_def)
  have h3: "enabled ?s \<and> \<not> paused info_example \<and>
      worldLinearVelocity ecm_configured (linkEntity ?s) \<noteq> None \<and>
      (if velocityControl ?s then jointVelocityCmd ecm_configured (jointEntity ?s) \<noteq> Some []
       else worldAngularVelocity ecm_configured (linkEntity ?s) \<noteq> None)"
    by (simp add: example_fields comps np)
  have h4: "worldLinearVelocity ecm_configured (linkEntity ?off) \<noteq> None \<and>
      (if velocityControl ?off then jointVelocityCmd ecm_configured (jointEntity ?off) \<noteq> Some []
       else worldAngularVelocity ecm_configured (linkEntity ?off) \<noteq> None)"
    by (simp add: f comps)
  note t1 = C7_battery_gating [where rot = rot_id and ecmp = ?low and s = ?s
      and ecmq = ecm_configured and info = info_example and ecm = ecm_configured]
  note t2 = C7_battery_gating [where rot = rot_id and ecmp = ?high and s = ?off
      and ecmq = ecm_configured and info = info_example and ecm = ecm_configured]
  have a: "\<exists>s' ecm' m w.
      PreUpdate rot_id info_example ecm_configured ?s = Inr (s', ecm', [m]) \<and>
      worldWrenches ecm' = [w] \<and> enabled s'"
    using t1 h3 unfolding ww append_Nil by blast
  have b: "\<not> enabled ?off"
    using t1 h1 by blast
  have c: "PreUpdate rot_id info_example ecm_configured ?off = Inr (?off, ecm_configured, [])"
    using t1 b by blast
  have d: "enabled (PostUpdate ?high ?off)"
    using t2 h2 by blast
  have e: "\<exists>s' ecm' m w.
      PreUpdate rot_id info_example ecm_configured (PostUpdate ?high ?off) = Inr (s', ecm', [m]) \<and>
      worldWrenches ecm' = [w]"
    using t2 d h4 np unfolding ww append_Nil by blast
  show ?thesis
    using a b c d e by blast
qed

section \<open>The set-point of a step\<close>






end
